theory Spec2Isabelle
  imports Complex_Main
begin

section \<open>The reorder service: data model\<close>

text \<open>
  The engine is the class \<open>ReorderService\<close> of \<open>services/reorderService.ts\<close>. Its fields
  become one record, its methods functions from the state to the new state, and the
  answers of its collaborators (the GraphQL client, AsyncStorage, the SQLite layer
  \<open>modernDb\<close>, the history logger, the clock and the random source), none of which is
  part of the class, arguments of the method that asks for them.

  JavaScript numbers are modelled by \<open>int\<close> where the code counts (quantities, clock
  readings in milliseconds) and by \<open>rat\<close> where it holds prices and costs; an ISO-8601
  string made by \<open>new Date().toISOString()\<close> is modelled by the clock reading it prints.
  Fields typed optional in the source are options. The field \<open>item\<close> of \<open>ReorderItem\<close> is
  never written by the class and is left out; \<open>id\<close> is spelled \<open>id'\<close> and \<open>notes\<close> \<open>notes'\<close>.
\<close>

type_synonym millis = int

record TeamData =
  vendor :: "string option"
  vendorCost :: "rat option"
  caseUpc :: "string option"
  caseCost :: "rat option"
  caseQuantity :: "rat option"
  discontinued :: "bool option"
  notes' :: "string option"

record ReorderItem =
  id' :: string
  itemId :: string
  itemName :: string
  itemBarcode :: "string option"
  itemCategory :: "string option"
  itemPrice :: "rat option"
  quantity :: int
  completed :: bool
  addedBy :: string
  createdAt :: millis
  updatedAt :: millis
  teamData :: "TeamData option"
  timestamp :: "millis option"
  index :: "nat option"

text \<open>The catalog item handed to \<open>addItem\<close> (\<open>ConvertedItem\<close>; only the fields read here).\<close>

record ConvertedItem =
  cid :: string
  name :: "string option"
  barcode :: "string option"
  category :: "string option"
  price :: "rat option"

text \<open>The argument of \<open>addCustomItem\<close>.\<close>

record CustomItem =
  customName :: string
  customCategory :: "string option"
  customQuantity :: int
  customAddedBy :: string
  customVendor :: "string option"
  customNotes :: "string option"

text \<open>
  An \<open>ItemData\<close> payload of the remote service (query \<open>getItemData\<close>, subscription
  \<open>onUpdateItemData\<close>); \<open>dataNotes\<close> lists the \<open>content\<close> of the entries of its \<open>notes\<close>
  array. \<open>TeamDataRow\<close> is a row as \<open>modernDb.getTeamData\<close> returns it.
\<close>

record ItemData =
  dataId :: string
  dataVendor :: "string option"
  dataCaseUpc :: "string option"
  dataCaseCost :: "rat option"
  dataCaseQuantity :: "rat option"
  dataDiscontinued :: "bool option"
  dataNotes :: "string list option"
  dataOwner :: "string option"

record TeamDataRow =
  rowVendor :: "string option"
  rowCaseUpc :: "string option"
  rowCaseCost :: "rat option"
  rowCaseQuantity :: "rat option"
  rowDiscontinued :: "bool option"
  rowNotes :: "string option"

text \<open>The input of the \<open>createReorderItem\<close> mutation.\<close>

record CreateInput =
  inItemId :: string
  inItemName :: "string option"
  inItemBarcode :: "string option"
  inItemCategory :: "string option"
  inItemPrice :: "rat option"
  inQuantity :: int
  inCompleted :: bool
  inAddedBy :: string

datatype stream = OnCreateReorderItem | OnUpdateReorderItem | OnDeleteReorderItem | OnUpdateItemData

text \<open>Every call the class makes to a collaborator, in the order it makes them.\<close>

datatype call =
    ListReorderItems nat
  | GetItemData string
  | CreateReorderItem CreateInput
  | UpdateQuantity string int
  | UpdateCompleted string bool
  | DeleteReorderItem string
  | Subscribe stream
  | BeforeRequest string
  | GetTeamData string
  | UpsertTeamData string
  | LogReorder string string int string
  | StorageGet
  | StorageSet
  | LoadLocalRows
  | SaveLocalRows "string list"

text \<open>
  A promise either resolves with a value or rejects. For a mutation the value is whether
  \<open>response.data\<close> holds the mutation's result, which is all the code reads of it.
\<close>

datatype 'a outcome = Resolved 'a | Rejected

record ReorderService =
  reorderItems :: "ReorderItem list"
  listeners :: "nat list"
  throws :: "nat \<Rightarrow> ReorderItem list \<Rightarrow> bool"
  teamDataCache :: "string \<Rightarrow> (TeamData \<times> millis) option"
  subscriptions :: "stream list"
  isInitialized :: bool
  currentUserId :: "string option"
  isOfflineMode :: bool
  pendingSyncItems :: "ReorderItem list"
  offlineStorage :: "ReorderItem list option"
  delivered :: "(nat \<times> ReorderItem list) list"
  calls :: "call list"

text \<open>
  \<open>listeners\<close> holds the registered callbacks by a number each, and \<open>throws l items\<close>
  tells whether callback \<open>l\<close> throws when it is called with the snapshot \<open>items\<close>;
  \<open>delivered\<close> is the log of the snapshots the callbacks were called with.
  \<open>offlineStorage\<close> is the value AsyncStorage holds under \<open>STORAGE_KEY\<close>, and \<open>calls\<close> the
  log of collaborator calls.
\<close>

definition CACHE_DURATION :: millis where
  "CACHE_DURATION = 5 * 60 * 1000"

subsection \<open>Array helpers\<close>

fun findIndex :: "('a \<Rightarrow> bool) \<Rightarrow> 'a list \<Rightarrow> nat option" where
  "findIndex P [] = None"
| "findIndex P (x # xs) =
     (if P x then Some 0 else (case findIndex P xs of None \<Rightarrow> None | Some i \<Rightarrow> Some (Suc i)))"

text \<open>\<open>xs.splice(i, 1)\<close>.\<close>

definition splice1 :: "nat \<Rightarrow> 'a list \<Rightarrow> 'a list" where
  "splice1 i xs = take i xs @ drop (Suc i) xs"

text \<open>\<open>items.forEach((item, index) => { item.index = index + 1 })\<close>.\<close>

definition reindex :: "ReorderItem list \<Rightarrow> ReorderItem list" where
  "reindex xs = map (\<lambda>(i, item). item\<lparr>index := Some (i + 1)\<rparr>) (enumerate 0 xs)"

subsection \<open>Listeners\<close>

text \<open>
  \<open>this.listeners.forEach(listener => listener([...this.reorderItems]))\<close> calls the
  listeners in order and has no guard: the first listener that throws ends the loop and
  the exception leaves \<open>notifyListeners\<close>. \<open>notifyListeners\<close> gives the state the
  broadcast leaves, \<open>notifyThrows\<close> whether it throws in that state; a broadcast changes
  nothing that \<open>notifyThrows\<close> reads.
\<close>

fun calledUntilThrow :: "(nat \<Rightarrow> bool) \<Rightarrow> nat list \<Rightarrow> nat list" where
  "calledUntilThrow t [] = []"
| "calledUntilThrow t (l # ls) = l # (if t l then [] else calledUntilThrow t ls)"

definition notifyListeners :: "ReorderService \<Rightarrow> ReorderService" where
  "notifyListeners s =
     s\<lparr>delivered := delivered s @
         map (\<lambda>l. (l, reorderItems s))
           (calledUntilThrow (\<lambda>l. throws s l (reorderItems s)) (listeners s))\<rparr>"

definition notifyThrows :: "ReorderService \<Rightarrow> bool" where
  "notifyThrows s = list_ex (\<lambda>l. throws s l (reorderItems s)) (listeners s)"

definition getItems :: "ReorderService \<Rightarrow> ReorderItem list" where
  "getItems s = reorderItems s"

subsection \<open>Real-time handlers\<close>

definition handleReorderItemCreated :: "ReorderItem \<Rightarrow> ReorderService \<Rightarrow> ReorderService" where
  "handleReorderItemCreated newItem s =
     (case find (\<lambda>item. id' item = id' newItem) (reorderItems s) of
        Some exists \<Rightarrow> s
      | None \<Rightarrow>
          notifyListeners
            (s\<lparr>reorderItems := reorderItems s @
                 [newItem\<lparr>timestamp := Some (createdAt newItem),
                           index := Some (length (reorderItems s) + 1)\<rparr>]\<rparr>))"

definition handleReorderItemUpdated :: "ReorderItem \<Rightarrow> ReorderService \<Rightarrow> ReorderService" where
  "handleReorderItemUpdated updatedItem s =
     (case findIndex (\<lambda>item. id' item = id' updatedItem) (reorderItems s) of
        Some i \<Rightarrow>
          notifyListeners
            (s\<lparr>reorderItems := (reorderItems s)
                 [i := updatedItem\<lparr>timestamp := Some (createdAt updatedItem),
                                    index := index (reorderItems s ! i)\<rparr>]\<rparr>)
      | None \<Rightarrow> s)"

definition handleReorderItemDeleted :: "ReorderItem \<Rightarrow> ReorderService \<Rightarrow> ReorderService" where
  "handleReorderItemDeleted deletedItem s =
     (let initialLength = length (reorderItems s);
          remaining = filter (\<lambda>item. id' item \<noteq> id' deletedItem) (reorderItems s)
      in if length remaining < initialLength
         then notifyListeners (s\<lparr>reorderItems := reindex remaining\<rparr>)
         else s\<lparr>reorderItems := remaining\<rparr>)"

subsection \<open>What the collaborators answer\<close>

text \<open>
  \<open>fetch_env\<close> holds the answers one call of \<open>fetchTeamData\<close> gets: the clock at the
  cache check, the row of the local store, whether \<open>appSyncMonitor.beforeRequest\<close> and
  \<open>modernDb.upsertTeamData\<close> resolve, the remote payload, and the clock when the cache
  entry is written. \<open>env\<close> holds the answers a public method gets. Blocks that run
  without suspension read the clock once.
\<close>

record fetch_env =
  fetchNow :: millis
  localTeam :: "TeamDataRow option outcome"
  fetchMonitorOk :: bool
  remoteData :: "ItemData option outcome"
  upsertOk :: bool
  storeNow :: millis

record env =
  now :: millis
  mintedId :: string
  mintedIdRetry :: string
  authProbe :: bool
  mutationResponse :: "bool outcome"
  syncResponses :: "nat \<Rightarrow> bool outcome"
  deleteResponses :: "nat \<Rightarrow> bool outcome"
  localRows :: "ReorderItem list outcome"
  monitorOk :: bool
  remoteList :: "ReorderItem list option outcome"
  teamEnv :: "nat \<Rightarrow> fetch_env"
  storageReadOk :: bool
  storageWriteOk :: bool
  emergencyMode :: bool

definition logCall :: "call \<Rightarrow> ReorderService \<Rightarrow> ReorderService" where
  "logCall c s = s\<lparr>calls := calls s @ [c]\<rparr>"

text \<open>The calls that go to the remote service through \<open>client.graphql\<close>.\<close>

fun isRemote :: "call \<Rightarrow> bool" where
  "isRemote (ListReorderItems n) = True"
| "isRemote (GetItemData i) = True"
| "isRemote (CreateReorderItem inp) = True"
| "isRemote (UpdateQuantity i q) = True"
| "isRemote (UpdateCompleted i c) = True"
| "isRemote (DeleteReorderItem i) = True"
| "isRemote (Subscribe st) = True"
| "isRemote c = False"

definition remoteCalls :: "ReorderService \<Rightarrow> call list" where
  "remoteCalls s = filter isRemote (calls s)"

subsection \<open>Team data\<close>

text \<open>\<open>caseCost && caseQuantity ? caseCost / caseQuantity : undefined\<close>.\<close>

definition perUnit :: "rat option \<Rightarrow> rat option \<Rightarrow> rat option" where
  "perUnit cost qty =
     (case cost of
        None \<Rightarrow> None
      | Some c \<Rightarrow>
          (case qty of
             None \<Rightarrow> None
           | Some q \<Rightarrow> if c \<noteq> 0 \<and> q \<noteq> 0 then Some (c / q) else None))"

definition rowTeamData :: "TeamDataRow \<Rightarrow> TeamData" where
  "rowTeamData row =
     \<lparr>vendor = rowVendor row,
      vendorCost = perUnit (rowCaseCost row) (rowCaseQuantity row),
      caseUpc = rowCaseUpc row,
      caseCost = rowCaseCost row,
      caseQuantity = rowCaseQuantity row,
      discontinued = rowDiscontinued row,
      notes' = rowNotes row\<rparr>"

definition itemDataTeamData :: "ItemData \<Rightarrow> TeamData" where
  "itemDataTeamData d =
     \<lparr>vendor = dataVendor d,
      vendorCost = perUnit (dataCaseCost d) (dataCaseQuantity d),
      caseUpc = dataCaseUpc d,
      caseCost = dataCaseCost d,
      caseQuantity = dataCaseQuantity d,
      discontinued = dataDiscontinued d,
      notes' = (case dataNotes d of Some (n # ns) \<Rightarrow> Some n | _ \<Rightarrow> None)\<rparr>"

definition cacheSet :: "string \<Rightarrow> TeamData \<Rightarrow> millis \<Rightarrow> ReorderService \<Rightarrow> ReorderService" where
  "cacheSet key d t s = s\<lparr>teamDataCache := (teamDataCache s)(key \<mapsto> (d, t))\<rparr>"

definition handleTeamDataUpdate :: "ItemData \<Rightarrow> millis \<Rightarrow> ReorderService \<Rightarrow> ReorderService" where
  "handleTeamDataUpdate updatedItemData t s =
     (let key = dataId updatedItemData;
          d = itemDataTeamData updatedItemData;
          s1 = cacheSet key d t s;
          itemsUpdated = list_ex (\<lambda>reorderItem. itemId reorderItem = key) (reorderItems s1);
          s2 = s1\<lparr>reorderItems :=
                 map (\<lambda>reorderItem.
                        if itemId reorderItem = key then reorderItem\<lparr>teamData := Some d\<rparr>
                        else reorderItem)
                     (reorderItems s1)\<rparr>
      in if itemsUpdated then notifyListeners s2 else s2)"

definition recoverTeamDataFromDynamoDB ::
  "fetch_env \<Rightarrow> string \<Rightarrow> ReorderService \<Rightarrow> TeamData option \<times> ReorderService" where
  "recoverTeamDataFromDynamoDB fe key s =
     (let s1 = logCall (BeforeRequest ''getItemData'') s
      in if \<not> fetchMonitorOk fe then (None, s1)
         else
           (let s2 = logCall (GetItemData key) s1
            in case remoteData fe of
                 Rejected \<Rightarrow> (None, s2)
               | Resolved None \<Rightarrow> (None, s2)
               | Resolved (Some itemData) \<Rightarrow>
                   (let d = itemDataTeamData itemData;
                        s3 = logCall (UpsertTeamData key) s2
                    in if \<not> upsertOk fe then (None, s3)
                       else (Some d, cacheSet key d (storeNow fe) s3))))"

definition cacheFresh :: "fetch_env \<Rightarrow> string \<Rightarrow> ReorderService \<Rightarrow> bool" where
  "cacheFresh fe key s =
     (case teamDataCache s key of
        None \<Rightarrow> False
      | Some (d, t) \<Rightarrow> fetchNow fe - t < CACHE_DURATION)"

definition fetchTeamData ::
  "fetch_env \<Rightarrow> string \<Rightarrow> ReorderService \<Rightarrow> TeamData option \<times> ReorderService" where
  "fetchTeamData fe key s =
     (if cacheFresh fe key s then (map_option fst (teamDataCache s key), s)
      else
        (let s1 = logCall (GetTeamData key) s
         in case localTeam fe of
              Rejected \<Rightarrow> (None, s1)
            | Resolved (Some localTeamData) \<Rightarrow>
                (let d = rowTeamData localTeamData
                 in (Some d, cacheSet key d (storeNow fe) s1))
            | Resolved None \<Rightarrow> recoverTeamDataFromDynamoDB fe key s1))"

fun loadTeamDataLoop ::
  "(nat \<Rightarrow> fetch_env) \<Rightarrow> nat \<Rightarrow> ReorderItem list \<Rightarrow> ReorderService \<Rightarrow>
   ReorderItem list \<times> ReorderService" where
  "loadTeamDataLoop fe k [] s = ([], s)"
| "loadTeamDataLoop fe k (item # rest) s =
     (case fetchTeamData (fe k) (itemId item) s of
        (found, s1) \<Rightarrow>
          (case loadTeamDataLoop fe (Suc k) rest s1 of
             (rest', s2) \<Rightarrow>
               ((case found of Some d \<Rightarrow> item\<lparr>teamData := Some d\<rparr> | None \<Rightarrow> item) # rest',
                s2)))"

definition loadTeamDataForItems :: "(nat \<Rightarrow> fetch_env) \<Rightarrow> ReorderService \<Rightarrow> ReorderService" where
  "loadTeamDataForItems fe s =
     (case loadTeamDataLoop fe 0 (reorderItems s) s of
        (items, s') \<Rightarrow> s'\<lparr>reorderItems := items\<rparr>)"

subsection \<open>Offline storage, local rows, recovery\<close>

text \<open>
  \<open>items.map((item, index) => ({...item, timestamp: new Date(item.createdAt),
  index: index + 1}))\<close>, as \<open>loadOfflineItems\<close> and \<open>recoverFromDynamoDB\<close> apply it.
\<close>

definition stampAndIndex :: "ReorderItem list \<Rightarrow> ReorderItem list" where
  "stampAndIndex items =
     map (\<lambda>(i, item). item\<lparr>timestamp := Some (createdAt item), index := Some (i + 1)\<rparr>)
         (enumerate 0 items)"

definition saveOfflineItems :: "bool \<Rightarrow> ReorderService \<Rightarrow> ReorderService" where
  "saveOfflineItems ok s =
     (let s1 = logCall StorageSet s
      in if ok then s1\<lparr>offlineStorage := Some (reorderItems s1)\<rparr> else s1)"

definition loadOfflineItems :: "bool \<Rightarrow> ReorderService \<Rightarrow> ReorderService" where
  "loadOfflineItems ok s =
     (let s1 = logCall StorageGet s
      in if \<not> ok then s1
         else (case offlineStorage s1 of
                 None \<Rightarrow> s1
               | Some items \<Rightarrow> s1\<lparr>reorderItems := stampAndIndex items\<rparr>))"

definition checkAuthStatus :: "bool \<Rightarrow> ReorderService \<Rightarrow> bool \<times> ReorderService" where
  "checkAuthStatus ok s = (ok, (logCall (ListReorderItems 1) s)\<lparr>isOfflineMode := \<not> ok\<rparr>)"

text \<open>
  \<open>loadLocalReorderItems\<close>: the rows of the query, or no row when it fails; each row
  becomes a record with \<open>index: 0\<close> and no team data.
\<close>

definition loadLocalReorderItems ::
  "ReorderItem list outcome \<Rightarrow> ReorderService \<Rightarrow> ReorderItem list \<times> ReorderService" where
  "loadLocalReorderItems rows s =
     (case rows of
        Rejected \<Rightarrow> ([], logCall LoadLocalRows s)
      | Resolved results \<Rightarrow>
          (map (\<lambda>row. row\<lparr>teamData := None, timestamp := Some (createdAt row), index := Some 0\<rparr>)
               results,
           logCall LoadLocalRows s))"

definition saveReorderItemsLocally :: "ReorderItem list \<Rightarrow> ReorderService \<Rightarrow> ReorderService" where
  "saveReorderItemsLocally items s = logCall (SaveLocalRows (map id' items)) s"

definition recoverFromDynamoDB :: "env \<Rightarrow> ReorderService \<Rightarrow> ReorderService" where
  "recoverFromDynamoDB e s =
     (let s1 = logCall (BeforeRequest ''listReorderItems'') s
      in if \<not> monitorOk e then s1
         else
           (let s2 = logCall (ListReorderItems 1000) s1
            in case remoteList e of
                 Rejected \<Rightarrow> s2
               | Resolved None \<Rightarrow> s2
               | Resolved (Some items) \<Rightarrow>
                   (let serverItems = stampAndIndex items;
                        s3 = saveReorderItemsLocally serverItems s2;
                        s4 = s3\<lparr>reorderItems := serverItems\<rparr>;
                        s5 = loadTeamDataForItems (teamEnv e) s4
                    in notifyListeners s5)))"

definition loadReorderItems :: "env \<Rightarrow> ReorderService \<Rightarrow> ReorderService" where
  "loadReorderItems e s =
     (case loadLocalReorderItems (localRows e) s of
        (localReorderItems, s1) \<Rightarrow>
          if length localReorderItems > 0
          then loadTeamDataForItems (teamEnv e) (s1\<lparr>reorderItems := localReorderItems\<rparr>)
          else recoverFromDynamoDB e s1)"

definition setupSubscriptions :: "bool \<Rightarrow> ReorderService \<Rightarrow> ReorderService" where
  "setupSubscriptions emergency s =
     (if emergency then s
      else
        (let streams = [OnCreateReorderItem, OnUpdateReorderItem, OnDeleteReorderItem,
                        OnUpdateItemData]
         in s\<lparr>subscriptions := subscriptions s @ streams,
              calls := calls s @ map Subscribe streams\<rparr>))"

subsection \<open>The pending queue\<close>

text \<open>
  The block \<open>const existingPendingIndex = this.pendingSyncItems.findIndex(pending =>
  pending.id === item.id); if (existingPendingIndex >= 0) { ...[existingPendingIndex] =
  { ...item } } else { ...push({ ...item }) }\<close> of \<open>addItem\<close> and \<open>toggleCompletion\<close>.
  The queue holds copies of records, so it is a list of values. Only \<open>addCustomItem\<close>
  pushes the record object itself; a later write through the collection to that object
  reaches the queued entry in its \<open>index\<close> and \<open>teamData\<close> alone (every other write is
  followed by this block, which queues a copy of the written record), and the flush
  reads neither field.
\<close>

definition replaceOrPush :: "ReorderItem \<Rightarrow> ReorderItem list \<Rightarrow> ReorderItem list" where
  "replaceOrPush item pending =
     (case findIndex (\<lambda>p. id' p = id' item) pending of
        Some existingPendingIndex \<Rightarrow> pending[existingPendingIndex := item]
      | None \<Rightarrow> pending @ [item])"

definition pendingInput :: "ReorderItem \<Rightarrow> CreateInput" where
  "pendingInput item =
     \<lparr>inItemId = itemId item, inItemName = Some (itemName item),
      inItemBarcode = itemBarcode item, inItemCategory = itemCategory item,
      inItemPrice = itemPrice item, inQuantity = quantity item,
      inCompleted = completed item, inAddedBy = addedBy item\<rparr>"

fun syncLoop :: "(nat \<Rightarrow> bool outcome) \<Rightarrow> nat \<Rightarrow> ReorderItem list \<Rightarrow> string list \<Rightarrow> string list" where
  "syncLoop resp k [] syncedItems = syncedItems"
| "syncLoop resp k (item # rest) syncedItems =
     syncLoop resp (Suc k) rest
       (if resp k = Resolved True then syncedItems @ [id' item] else syncedItems)"

definition syncPendingItems :: "(nat \<Rightarrow> bool outcome) \<Rightarrow> ReorderService \<Rightarrow> ReorderService" where
  "syncPendingItems resp s =
     (if length (pendingSyncItems s) = 0 then s
      else
        (let syncedItems = syncLoop resp 0 (pendingSyncItems s) []
         in s\<lparr>pendingSyncItems :=
                filter (\<lambda>item. id' item \<notin> set syncedItems) (pendingSyncItems s),
              calls := calls s @
                map (\<lambda>item. CreateReorderItem (pendingInput item)) (pendingSyncItems s)\<rparr>))"

subsection \<open>addItem\<close>

text \<open>\<open>x || d\<close> on an optional string: the default for \<open>undefined\<close> and for the empty string.\<close>

definition orElse :: "string option \<Rightarrow> string \<Rightarrow> string" where
  "orElse x d = (case x of None \<Rightarrow> d | Some v \<Rightarrow> if v = [] then d else v)"

definition orUndefined :: "string option \<Rightarrow> string option" where
  "orUndefined x = (case x of None \<Rightarrow> None | Some v \<Rightarrow> if v = [] then None else Some v)"

text \<open>
  \<open>a + b\<close> on JavaScript numbers that hold integers, as quantities do: the exact sum
  rounded to the nearest double, ties to the even significand. A sum of magnitude below
  \<open>2^53\<close> is exact. (The overflow to \<open>Infinity\<close> past \<open>2^1024\<close> is left out.)
\<close>

fun bitLength :: "nat \<Rightarrow> nat" where
  "bitLength n = (if n = 0 then 0 else Suc (bitLength (n div 2)))"

definition roundToDouble :: "int \<Rightarrow> int" where
  "roundToDouble n =
     (let m = nat \<bar>n\<bar>; bits = bitLength m
      in if bits \<le> 53 then n
         else
           (let unit = 2 ^ (bits - 53); q = m div unit; r = m mod unit;
                q' = (if unit < 2 * r \<or> (2 * r = unit \<and> odd q) then q + 1 else q)
            in sgn n * int (q' * unit)))"

definition jsPlus :: "int \<Rightarrow> int \<Rightarrow> int" where
  "jsPlus a b = roundToDouble (a + b)"

text \<open>
  The local path of \<open>addItem\<close>: the body of \<open>if (this.isOfflineMode)\<close>, which the
  \<open>catch\<close> block repeats (there with \<open>addedBy || 'Unknown User'\<close>). Its last statement is
  the broadcast.
\<close>

definition addItemLocally ::
  "ConvertedItem \<Rightarrow> int \<Rightarrow> TeamData option \<Rightarrow> string \<Rightarrow> bool \<Rightarrow> env \<Rightarrow> ReorderService \<Rightarrow>
   ReorderService" where
  "addItemLocally item qty td by overwriteMode e s =
     (let s1 =
        (case findIndex (\<lambda>reorderItem. itemId reorderItem = cid item) (reorderItems s) of
           Some existingItemIndex \<Rightarrow>
             (let existingItem = reorderItems s ! existingItemIndex;
                  existingItem' = existingItem
                    \<lparr>quantity := (if overwriteMode then qty else jsPlus (quantity existingItem) qty),
                     updatedAt := now e\<rparr>
              in s\<lparr>reorderItems := (reorderItems s)[existingItemIndex := existingItem'],
                   pendingSyncItems := replaceOrPush existingItem' (pendingSyncItems s)\<rparr>)
         | None \<Rightarrow>
             (let newReorderItem =
                \<lparr>id' = mintedId e, itemId = cid item,
                 itemName = orElse (name item) ''Unknown Item'',
                 itemBarcode = orUndefined (barcode item),
                 itemCategory = orUndefined (category item),
                 itemPrice = price item, quantity = qty, completed = False,
                 addedBy = by, createdAt = now e, updatedAt = now e,
                 teamData = td, timestamp = Some (now e),
                 index = Some (length (reorderItems s) + 1)\<rparr>
              in s\<lparr>reorderItems := reorderItems s @ [newReorderItem],
                   pendingSyncItems := pendingSyncItems s @ [newReorderItem]\<rparr>))
      in notifyListeners (saveOfflineItems (storageWriteOk e) s1))"

text \<open>
  The \<open>catch\<close> block of \<open>addItem\<close>. It is entered when the remote call rejects and also
  when a listener throws in the broadcast that ends the local path inside the \<open>try\<close>;
  its own broadcast is unguarded, so a listener that throws there makes the promise
  reject after the write.
\<close>

definition addItemCatch ::
  "ConvertedItem \<Rightarrow> int \<Rightarrow> TeamData option \<Rightarrow> string \<Rightarrow> bool \<Rightarrow> env \<Rightarrow> ReorderService \<Rightarrow>
   bool outcome \<times> ReorderService" where
  "addItemCatch item qty td by overwriteMode e s =
     (let s1 = addItemLocally item qty td (orElse (Some by) ''Unknown User'') overwriteMode e
                 (s\<lparr>isOfflineMode := True\<rparr>)
      in (if notifyThrows s1 then Rejected else Resolved True, s1))"

definition addItem ::
  "ConvertedItem \<Rightarrow> int \<Rightarrow> TeamData option \<Rightarrow> string \<Rightarrow> bool \<Rightarrow> env \<Rightarrow> ReorderService \<Rightarrow>
   bool outcome \<times> ReorderService" where
  "addItem item qty td by overwriteMode e s =
     (if isOfflineMode s
      then
        (let s1 = addItemLocally item qty td by overwriteMode e s
         in if notifyThrows s1 then addItemCatch item qty td by overwriteMode e s1
            else (Resolved True, s1))
      else
        (let s1 =
           (case findIndex (\<lambda>reorderItem. itemId reorderItem = cid item) (reorderItems s) of
              Some existingItemIndex \<Rightarrow>
                (let existingItem = reorderItems s ! existingItemIndex;
                     newQuantity =
                       (if overwriteMode then qty else jsPlus (quantity existingItem) qty)
                 in logCall (UpdateQuantity (id' existingItem) newQuantity) s)
            | None \<Rightarrow>
                logCall (CreateReorderItem
                  \<lparr>inItemId = cid item, inItemName = name item,
                   inItemBarcode = orUndefined (barcode item),
                   inItemCategory = orUndefined (category item),
                   inItemPrice = price item, inQuantity = qty, inCompleted = False,
                   inAddedBy = by\<rparr>) s)
         in case mutationResponse e of
              Resolved present \<Rightarrow> (Resolved present, s1)
            | Rejected \<Rightarrow> addItemCatch item qty td by overwriteMode e s1))"

subsection \<open>clear, removeItem, toggleCompletion\<close>

text \<open>\<open>clear\<close> asks the remote to delete each record in turn; a rejection ends the loop.\<close>

fun clearLoop :: "(nat \<Rightarrow> bool outcome) \<Rightarrow> nat \<Rightarrow> ReorderItem list \<Rightarrow> call list" where
  "clearLoop resp k [] = []"
| "clearLoop resp k (item # rest) =
     DeleteReorderItem (id' item) #
       (case resp k of Rejected \<Rightarrow> [] | Resolved r \<Rightarrow> clearLoop resp (Suc k) rest)"

definition clear :: "(nat \<Rightarrow> bool outcome) \<Rightarrow> ReorderService \<Rightarrow> ReorderService" where
  "clear resp s = s\<lparr>calls := calls s @ clearLoop resp 0 (reorderItems s)\<rparr>"

definition removeItemLocally :: "string \<Rightarrow> env \<Rightarrow> ReorderService \<Rightarrow> ReorderService" where
  "removeItemLocally key e s =
     (case findIndex (\<lambda>item. id' item = key) (reorderItems s) of
        Some itemIndex \<Rightarrow>
          notifyListeners
            (saveOfflineItems (storageWriteOk e)
               (s\<lparr>reorderItems := reindex (splice1 itemIndex (reorderItems s)),
                  pendingSyncItems := filter (\<lambda>item. id' item \<noteq> key) (pendingSyncItems s)\<rparr>))
      | None \<Rightarrow> s)"

text \<open>
  \<open>removeItem\<close> returns no value; the state it leaves is given. A listener that throws in
  the broadcast of the local path sends control to the \<open>catch\<close> block, which searches the
  id again in the list the record has just left; it finds none there (a second record
  with the same id apart) and writes nothing more, so the state is the one given here.
\<close>

definition removeItem :: "string \<Rightarrow> env \<Rightarrow> ReorderService \<Rightarrow> ReorderService" where
  "removeItem key e s =
     (if isOfflineMode s then removeItemLocally key e s
      else
        (let s1 = logCall (DeleteReorderItem key) s
         in case mutationResponse e of
              Resolved present \<Rightarrow> s1
            | Rejected \<Rightarrow> removeItemLocally key e (s1\<lparr>isOfflineMode := True\<rparr>)))"

text \<open>
  The call to the history logger; its failure is caught and changes nothing.
\<close>

definition logHistory :: "ReorderItem \<Rightarrow> string \<Rightarrow> ReorderService \<Rightarrow> ReorderService" where
  "logHistory item userName s =
     (if \<not> completed item \<and> itemId item \<noteq> [] \<and> itemId item \<noteq> id' item
      then logCall (LogReorder (itemId item) (orElse (Some (itemName item)) ''Unknown Item'')
                      (quantity item) userName) s
      else s)"

definition toggleLocally :: "nat \<Rightarrow> env \<Rightarrow> ReorderService \<Rightarrow> ReorderService" where
  "toggleLocally i e s =
     (let item = reorderItems s ! i;
          item' = item\<lparr>completed := \<not> completed item, updatedAt := now e\<rparr>
      in notifyListeners
           (saveOfflineItems (storageWriteOk e)
              (s\<lparr>reorderItems := (reorderItems s)[i := item'],
                 pendingSyncItems := replaceOrPush item' (pendingSyncItems s)\<rparr>)))"

text \<open>
  The \<open>catch\<close> block of \<open>toggleCompletion\<close>: it looks the record up again, logs history
  again and toggles the flag it finds. It is entered when the remote call rejects and
  also when a listener throws in the broadcast of the local path, in which case the
  record is toggled a second time. \<open>toggleCompletion\<close> returns no value; the state it
  leaves is given.
\<close>

definition toggleCatch :: "string \<Rightarrow> string \<Rightarrow> env \<Rightarrow> ReorderService \<Rightarrow> ReorderService" where
  "toggleCatch key userName e s =
     (let s1 = s\<lparr>isOfflineMode := True\<rparr>
      in case findIndex (\<lambda>item. id' item = key) (reorderItems s1) of
           None \<Rightarrow> s1
         | Some i \<Rightarrow> toggleLocally i e (logHistory (reorderItems s1 ! i) userName s1))"

definition toggleCompletion :: "string \<Rightarrow> string \<Rightarrow> env \<Rightarrow> ReorderService \<Rightarrow> ReorderService" where
  "toggleCompletion key userName e s =
     (case findIndex (\<lambda>item. id' item = key) (reorderItems s) of
        None \<Rightarrow> s
      | Some i \<Rightarrow>
          (let item = reorderItems s ! i;
               newCompletedState = \<not> completed item;
               s1 = logHistory item userName s
           in if isOfflineMode s1
              then
                (let s2 = toggleLocally i e s1
                 in if notifyThrows s2 then toggleCatch key userName e s2 else s2)
              else
                (let s2 = logCall (UpdateCompleted key newCompletedState) s1
                 in case mutationResponse e of
                      Resolved present \<Rightarrow> s2
                    | Rejected \<Rightarrow> toggleCatch key userName e s2)))"

subsection \<open>addCustomItem\<close>

definition customRecord :: "string \<Rightarrow> CustomItem \<Rightarrow> env \<Rightarrow> ReorderService \<Rightarrow> ReorderItem" where
  "customRecord customId customItem e s =
     \<lparr>id' = customId, itemId = customId, itemName = customName customItem,
      itemBarcode = None,
      itemCategory = Some (orElse (customCategory customItem) ''Custom''),
      itemPrice = None, quantity = customQuantity customItem, completed = False,
      addedBy = customAddedBy customItem, createdAt = now e, updatedAt = now e,
      teamData =
        (case orUndefined (customVendor customItem) of
           None \<Rightarrow> None
         | Some v \<Rightarrow>
             Some \<lparr>vendor = Some v, vendorCost = None, caseUpc = None, caseCost = None,
                   caseQuantity = None, discontinued = None, notes' = None\<rparr>),
      timestamp = Some (now e),
      index = Some (length (reorderItems s) + 1)\<rparr>"

definition addCustomLocally :: "ReorderItem \<Rightarrow> env \<Rightarrow> ReorderService \<Rightarrow> ReorderService" where
  "addCustomLocally newItem e s =
     notifyListeners
       (saveOfflineItems (storageWriteOk e)
          (s\<lparr>reorderItems := newItem # reorderItems s,
             pendingSyncItems := pendingSyncItems s @ [newItem]\<rparr>))"

text \<open>
  The \<open>catch\<close> block of \<open>addCustomItem\<close> mints a second id and adds the record under it.
  It is entered when the remote call rejects and also when a listener throws in the
  broadcast of the local path; a listener that throws in its own broadcast makes the
  promise reject after the write.
\<close>

definition addCustomCatch ::
  "CustomItem \<Rightarrow> env \<Rightarrow> ReorderService \<Rightarrow> bool outcome \<times> ReorderService" where
  "addCustomCatch customItem e s =
     (let s1 = s\<lparr>isOfflineMode := True\<rparr>;
          s2 = addCustomLocally (customRecord (mintedIdRetry e) customItem e s1) e s1
      in (if notifyThrows s2 then Rejected else Resolved True, s2))"

definition addCustomItem ::
  "CustomItem \<Rightarrow> env \<Rightarrow> ReorderService \<Rightarrow> bool outcome \<times> ReorderService" where
  "addCustomItem customItem e s =
     (let customId = mintedId e;
          newItem = customRecord customId customItem e s
      in if isOfflineMode s
         then
           (let s1 = addCustomLocally newItem e s
            in if notifyThrows s1 then addCustomCatch customItem e s1 else (Resolved True, s1))
         else
           (let s1 = logCall (CreateReorderItem
                  \<lparr>inItemId = customId, inItemName = Some (customName customItem),
                   inItemBarcode = None,
                   inItemCategory = Some (orElse (customCategory customItem) ''Custom''),
                   inItemPrice = None, inQuantity = customQuantity customItem,
                   inCompleted = False, inAddedBy = customAddedBy customItem\<rparr>) s
            in case mutationResponse e of
                 Resolved present \<Rightarrow> (Resolved present, s1)
               | Rejected \<Rightarrow> addCustomCatch customItem e s1))"

subsection \<open>initialize, refresh, listeners\<close>

text \<open>
  Each callee of \<open>initialize\<close> and \<open>refresh\<close> catches its own failures, so their outer
  \<open>catch\<close> blocks are reached only when a listener throws in the broadcast. The one of
  \<open>initialize\<close> goes offline, reloads the offline snapshot and broadcasts again; the one
  of \<open>refresh\<close> only logs. \<open>initialize\<close> gives, with the state, whether its promise resolves.
  \<open>this.currentUserId === userId\<close> compares a \<open>string | null\<close> with a
  \<open>string | undefined\<close>: it holds only when both are the same string.
\<close>

definition initialize :: "string option \<Rightarrow> env \<Rightarrow> ReorderService \<Rightarrow> bool \<times> ReorderService" where
  "initialize userId e s =
     (if isInitialized s \<and> (case userId of None \<Rightarrow> False | Some u \<Rightarrow> currentUserId s = Some u)
      then (True, s)
      else
        (case checkAuthStatus (authProbe e) (s\<lparr>currentUserId := orUndefined userId\<rparr>) of
           (isAuthenticated, s1) \<Rightarrow>
             (let s2 = (if isAuthenticated
                        then setupSubscriptions (emergencyMode e) (loadReorderItems e s1)
                        else loadOfflineItems (storageReadOk e) s1);
                  s3 = notifyListeners (s2\<lparr>isInitialized := True\<rparr>)
              in if notifyThrows s3
                 then
                   (let s4 = notifyListeners
                               (loadOfflineItems (storageReadOk e) (s3\<lparr>isOfflineMode := True\<rparr>))
                    in (\<not> notifyThrows s4, s4))
                 else (True, s3))))"

definition refresh :: "env \<Rightarrow> ReorderService \<Rightarrow> ReorderService" where
  "refresh e s =
     (case checkAuthStatus (authProbe e) s of
        (isAuthenticated, s1) \<Rightarrow>
          if isAuthenticated
          then notifyListeners (loadReorderItems e (syncPendingItems (syncResponses e) s1))
          else notifyListeners (loadOfflineItems (storageReadOk e) s1))"

definition deliver :: "nat \<Rightarrow> ReorderService \<Rightarrow> ReorderService" where
  "deliver listener s = s\<lparr>delivered := delivered s @ [(listener, reorderItems s)]\<rparr>"

definition addListener :: "nat \<Rightarrow> env \<Rightarrow> ReorderService \<Rightarrow> ReorderService" where
  "addListener listener e s =
     (let s1 = s\<lparr>listeners := listeners s @ [listener]\<rparr>
      in if length (listeners s1) = 1 \<and> \<not> isInitialized s1
         then
           (case initialize (orUndefined (currentUserId s1)) e s1 of
              (resolved, s2) \<Rightarrow> if resolved then deliver listener s2 else s2)
         else deliver listener s1)"

text \<open>The function \<open>addListener\<close> returns: it unregisters the callback.\<close>

definition removeListener :: "nat \<Rightarrow> ReorderService \<Rightarrow> ReorderService" where
  "removeListener listener s = s\<lparr>listeners := filter (\<lambda>l. l \<noteq> listener) (listeners s)\<rparr>"

subsection \<open>Runs of operations\<close>

datatype operation =
    Initialize "string option" env
  | Refresh env
  | AddItem ConvertedItem int "TeamData option" string bool env
  | AddCustomItem CustomItem env
  | RemoveItem string env
  | ToggleCompletion string string env
  | SyncPendingItems "nat \<Rightarrow> bool outcome"
  | Clear "nat \<Rightarrow> bool outcome"
  | AddListener nat env
  | RemoveListener nat
  | ItemCreated ReorderItem
  | ItemUpdated ReorderItem
  | ItemDeleted ReorderItem
  | TeamDataUpdated ItemData millis

fun exec :: "operation \<Rightarrow> ReorderService \<Rightarrow> ReorderService" where
  "exec (Initialize userId e) s = snd (initialize userId e s)"
| "exec (Refresh e) s = refresh e s"
| "exec (AddItem item qty td by overwriteMode e) s = snd (addItem item qty td by overwriteMode e s)"
| "exec (AddCustomItem customItem e) s = snd (addCustomItem customItem e s)"
| "exec (RemoveItem key e) s = removeItem key e s"
| "exec (ToggleCompletion key userName e) s = toggleCompletion key userName e s"
| "exec (SyncPendingItems resp) s = syncPendingItems resp s"
| "exec (Clear resp) s = clear resp s"
| "exec (AddListener l e) s = addListener l e s"
| "exec (RemoveListener l) s = removeListener l s"
| "exec (ItemCreated newItem) s = handleReorderItemCreated newItem s"
| "exec (ItemUpdated updatedItem) s = handleReorderItemUpdated updatedItem s"
| "exec (ItemDeleted deletedItem) s = handleReorderItemDeleted deletedItem s"
| "exec (TeamDataUpdated d t) s = handleTeamDataUpdate d t s"


section \<open>Properties stated about the service\<close>



definition ids :: "ReorderItem list \<Rightarrow> string list" where
  "ids items = map id' items"

text \<open>The record the local path of \<open>addItem\<close> writes into the collection and the queue.\<close>

definition localAdd ::
  "ConvertedItem \<Rightarrow> int \<Rightarrow> TeamData option \<Rightarrow> string \<Rightarrow> bool \<Rightarrow> env \<Rightarrow>
   ReorderItem list \<Rightarrow> ReorderItem" where
  "localAdd item qty td by overwriteMode e items =
     (case findIndex (\<lambda>reorderItem. itemId reorderItem = cid item) items of
        Some i \<Rightarrow> (items ! i)
          \<lparr>quantity := (if overwriteMode then qty else jsPlus (quantity (items ! i)) qty),
           updatedAt := now e\<rparr>
      | None \<Rightarrow>
          \<lparr>id' = mintedId e, itemId = cid item,
           itemName = orElse (name item) ''Unknown Item'',
           itemBarcode = orUndefined (barcode item),
           itemCategory = orUndefined (category item),
           itemPrice = price item, quantity = qty, completed = False,
           addedBy = by, createdAt = now e, updatedAt = now e,
           teamData = td, timestamp = Some (now e),
           index = Some (length items + 1)\<rparr>)"

text \<open>The ids a flush collects: those of the entries whose resubmission was confirmed.\<close>

definition confirmedIds :: "(nat \<Rightarrow> bool outcome) \<Rightarrow> ReorderItem list \<Rightarrow> string list" where
  "confirmedIds resp pending =
     map (\<lambda>(k, item). id' item)
       (filter (\<lambda>(k, item). resp k = Resolved True) (enumerate 0 pending))"

text \<open>An operation leaves the collection, the queue and the offline snapshot alone.\<close>

definition sameLists :: "ReorderService \<Rightarrow> ReorderService \<Rightarrow> bool" where
  "sameLists s s' =
     (reorderItems s' = reorderItems s \<and> pendingSyncItems s' = pendingSyncItems s \<and>
      offlineStorage s' = offlineStorage s)"

text \<open>
  The identifiers of the collection are pairwise different, and so are those of the
  offline snapshot, from which the collection is reloaded.
\<close>

definition uniqueIds :: "ReorderService \<Rightarrow> bool" where
  "uniqueIds s =
     (distinct (ids (reorderItems s)) \<and>
      (case offlineStorage s of None \<Rightarrow> True | Some items \<Rightarrow> distinct (ids items)))"

definition uniquePending :: "ReorderService \<Rightarrow> bool" where
  "uniquePending s = distinct (ids (pendingSyncItems s))"





section \<open>Listeners and shared objects\<close>

text \<open>
  The definitions above hold records by value. What a listener can do with the array it
  is handed depends on what that array shares with the engine, so for \<open>notifyListeners\<close>,
  \<open>addListener\<close> and \<open>getItems\<close> the objects are modelled by reference: a memory of array
  objects and record objects, the field \<open>this.reorderItems\<close> a reference to an array.
\<close>

type_synonym ref = nat

record memory =
  arrays :: "ref \<Rightarrow> ref list"
  records :: "ref \<Rightarrow> ReorderItem"
  nextArray :: ref
  reorderItemsRef :: ref

text \<open>\<open>[...this.reorderItems]\<close>: a new array object with the same element references.\<close>

definition spread :: "memory \<Rightarrow> ref \<times> memory" where
  "spread m =
     (nextArray m,
      m\<lparr>arrays := (arrays m)(nextArray m := arrays m (reorderItemsRef m)),
        nextArray := Suc (nextArray m)\<rparr>)"

text \<open>
  What a callback may do with its argument \<open>items\<close>: \<open>items.push(r)\<close>, \<open>items.pop()\<close>,
  \<open>items.length = 0\<close>, \<open>items[i] = r\<close> and a write to the fields of \<open>items[i]\<close>. An index
  past the end makes the last two do nothing here.
\<close>

datatype mutation =
    Push ref
  | Pop
  | Truncate
  | AssignElement nat ref
  | WriteRecord nat "ReorderItem \<Rightarrow> ReorderItem"

fun mutate :: "ref \<Rightarrow> mutation \<Rightarrow> memory \<Rightarrow> memory" where
  "mutate a (Push r) m = m\<lparr>arrays := (arrays m)(a := arrays m a @ [r])\<rparr>"
| "mutate a Pop m = m\<lparr>arrays := (arrays m)(a := butlast (arrays m a))\<rparr>"
| "mutate a Truncate m = m\<lparr>arrays := (arrays m)(a := [])\<rparr>"
| "mutate a (AssignElement i r) m =
     (if i < length (arrays m a) then m\<lparr>arrays := (arrays m)(a := (arrays m a)[i := r])\<rparr> else m)"
| "mutate a (WriteRecord i f) m =
     (if i < length (arrays m a)
      then m\<lparr>records := (records m)(arrays m a ! i := f (records m (arrays m a ! i)))\<rparr>
      else m)"

fun isWrite :: "mutation \<Rightarrow> bool" where
  "isWrite (WriteRecord i f) = True"
| "isWrite mu = False"

text \<open>\<open>listener([...this.reorderItems])\<close>, the listener given by what it does to its argument.\<close>

definition callListener :: "mutation list \<Rightarrow> memory \<Rightarrow> memory" where
  "callListener script m = (case spread m of (a, m1) \<Rightarrow> fold (mutate a) script m1)"

text \<open>\<open>this.listeners.forEach(listener => listener([...this.reorderItems]))\<close>.\<close>

definition notifyListenersRef :: "mutation list list \<Rightarrow> memory \<Rightarrow> memory" where
  "notifyListenersRef ls m = fold callListener ls m"

text \<open>The records of the engine's collection, read through the references.\<close>

definition collection :: "memory \<Rightarrow> ReorderItem list" where
  "collection m = map (records m) (arrays m (reorderItemsRef m))"

section \<open>Concrete states and answers\<close>

text \<open>The state the constructor leaves, a record, and collaborators that all answer well.\<close>

definition newService :: ReorderService where
  "newService =
     \<lparr>reorderItems = [], listeners = [], throws = (\<lambda>l items. False),
      teamDataCache = (\<lambda>k. None), subscriptions = [],
      isInitialized = False, currentUserId = None, isOfflineMode = False,
      pendingSyncItems = [], offlineStorage = None, delivered = [], calls = []\<rparr>"

definition sampleItem :: "string \<Rightarrow> string \<Rightarrow> int \<Rightarrow> nat \<Rightarrow> ReorderItem" where
  "sampleItem key source qty i =
     \<lparr>id' = key, itemId = source, itemName = ''Widget'', itemBarcode = None,
      itemCategory = None, itemPrice = None, quantity = qty, completed = False,
      addedBy = ''ann'', createdAt = 10, updatedAt = 10, teamData = None,
      timestamp = Some 10, index = Some i\<rparr>"

definition widget :: ConvertedItem where
  "widget = \<lparr>cid = ''w'', name = Some ''Widget'', barcode = None, category = None, price = None\<rparr>"

definition gadget :: ConvertedItem where
  "gadget = \<lparr>cid = ''g'', name = Some ''Gadget'', barcode = None, category = None, price = None\<rparr>"

definition sampleCustom :: CustomItem where
  "sampleCustom =
     \<lparr>customName = ''Tape'', customCategory = None, customQuantity = 4,
      customAddedBy = ''ann'', customVendor = None, customNotes = None\<rparr>"

definition sampleRow :: TeamDataRow where
  "sampleRow =
     \<lparr>rowVendor = Some ''Acme'', rowCaseUpc = None, rowCaseCost = Some 12,
      rowCaseQuantity = Some 6, rowDiscontinued = None, rowNotes = None\<rparr>"

definition sampleFetchEnv :: fetch_env where
  "sampleFetchEnv =
     \<lparr>fetchNow = 1000, localTeam = Resolved None, fetchMonitorOk = True,
      remoteData = Resolved None, upsertOk = True, storeNow = 1001\<rparr>"

definition sampleEnv :: env where
  "sampleEnv =
     \<lparr>now = 1000, mintedId = ''offline-1000-abc'', mintedIdRetry = ''custom-1001-abd'',
      authProbe = True, mutationResponse = Resolved True,
      syncResponses = (\<lambda>k. Resolved True), deleteResponses = (\<lambda>k. Resolved True),
      localRows = Resolved [], monitorOk = True, remoteList = Resolved None,
      teamEnv = (\<lambda>k. sampleFetchEnv), storageReadOk = True, storageWriteOk = True,
      emergencyMode = False\<rparr>"

definition failingEnv :: env where
  "failingEnv = sampleEnv\<lparr>mutationResponse := Rejected\<rparr>"

definition twoItems :: ReorderService where
  "twoItems = newService\<lparr>reorderItems := [sampleItem ''a'' ''w'' 2 1, sampleItem ''b'' ''v'' 5 2]\<rparr>"


definition offlineWidget :: ReorderService where
  "offlineWidget = twoItems\<lparr>isOfflineMode := True\<rparr>"


text \<open>An offline service with two queued entries, and a remote that confirms the first call only.\<close>

definition twoQueued :: ReorderService where
  "twoQueued =
     offlineWidget\<lparr>pendingSyncItems := [sampleItem ''a'' ''w'' 2 1, sampleItem ''b'' ''v'' 5 2]\<rparr>"

definition firstOnly :: "nat \<Rightarrow> bool outcome" where
  "firstOnly k = (if k = 0 then Resolved True else Rejected)"

definition cachedService :: ReorderService where
  "cachedService = newService\<lparr>teamDataCache := [''w'' \<mapsto> (rowTeamData sampleRow, 900)]\<rparr>"

definition sampleRun :: "operation list" where
  "sampleRun =
     [ItemCreated (sampleItem ''c'' ''x'' 1 0),
      ItemCreated (sampleItem ''c'' ''x'' 1 0),
      AddItem gadget 1 None ''ann'' False sampleEnv,
      ToggleCompletion ''a'' ''ann'' sampleEnv,
      AddItem widget 3 None ''ann'' False sampleEnv]"

text \<open>A listener that runs \<open>items[0].quantity = 99\<close>.\<close>

definition overwriteQuantity :: "int \<Rightarrow> ReorderItem \<Rightarrow> ReorderItem" where
  "overwriteQuantity q r = r\<lparr>quantity := q\<rparr>"

definition writingListener :: "mutation list" where
  "writingListener = [WriteRecord 0 (overwriteQuantity 99)]"

definition sampleMemory :: memory where
  "sampleMemory =
     \<lparr>arrays = (\<lambda>a. [0, 1]),
      records = (\<lambda>r. if r = 0 then sampleItem ''a'' ''w'' 2 1 else sampleItem ''b'' ''v'' 5 2),
      nextArray = 1, reorderItemsRef = 0\<rparr>"

text \<open>Two records and one listener, which throws whatever it is called with.\<close>

definition heckled :: ReorderService where
  "heckled = twoItems\<lparr>listeners := [0], throws := (\<lambda>l items. True)\<rparr>"

definition noDataEnv :: env where
  "noDataEnv = sampleEnv\<lparr>mutationResponse := Resolved False\<rparr>"



section \<open>Proofs\<close>

subsection \<open>Lists and indices\<close>

lemma length_reindex [simp]: "length (reindex xs) = length xs"
  by (simp add: reindex_def)





lemma filter_absent: "key \<notin> id' ` set xs \<Longrightarrow> filter (\<lambda>item. id' item \<noteq> key) xs = xs"
  by (induction xs) auto


lemma findIndex_None: "findIndex P xs = None \<longleftrightarrow> (\<forall>x \<in> set xs. \<not> P x)"
  by (induction xs) (auto split: option.splits)

lemma findIndex_Some:
  "findIndex P xs = Some i \<Longrightarrow> i < length xs \<and> P (xs ! i) \<and> (\<forall>j < i. \<not> P (xs ! j))"
proof (induction xs arbitrary: i)
  case Nil
  then show ?case by simp
next
  case (Cons x xs)
  show ?case
  proof (cases "P x")
    case True
    with Cons.prems show ?thesis by simp
  next
    case False
    with Cons.prems obtain k where k: "findIndex P xs = Some k" "i = Suc k"
      by (auto split: option.splits)
    from Cons.IH [OF k(1)] False k(2) show ?thesis
      by (auto simp: nth_Cons split: nat.splits)
  qed
qed


subsection \<open>Frame lemmas\<close>

lemma reorderItems_notify [simp]: "reorderItems (notifyListeners s) = reorderItems s"
  by (simp add: notifyListeners_def)

lemma reorderItems_logCall [simp]: "reorderItems (logCall c s) = reorderItems s"
  by (simp add: logCall_def)

lemma reorderItems_save [simp]: "reorderItems (saveOfflineItems ok s) = reorderItems s"
  by (simp add: saveOfflineItems_def Let_def)



text \<open>
  C9. A remote deleted event for an id that no record of the collection has changes
  nothing: the state after the handler is the state before it, so the collection, every
  display index in it and the log of snapshots delivered to listeners are as they were.
\<close>

theorem deleted_event_absent_id_noop:
  "id' deletedItem \<notin> set (ids (reorderItems s)) \<Longrightarrow>
   handleReorderItemDeleted deletedItem s = s"
  by (simp add: handleReorderItemDeleted_def Let_def filter_absent ids_def)

theorem deleted_event_absent_id_noop_witness:
  "id' (sampleItem ''zz'' ''w'' 1 1) \<notin> set (ids (reorderItems twoItems)) \<and>
   handleReorderItemDeleted (sampleItem ''zz'' ''w'' 1 1) twoItems = twoItems"
proof -
  have h: "id' (sampleItem ''zz'' ''w'' 1 1) \<notin> set (ids (reorderItems twoItems))"
    by (simp add: sampleItem_def twoItems_def newService_def ids_def)
  show ?thesis using h deleted_event_absent_id_noop [OF h] by simp
qed



text \<open>
  C10. \<open>clear\<close> only sends delete requests: whatever the remote answers, the collection,
  the pending queue, the offline snapshot and the log of delivered snapshots are those
  of the state before, and \<open>getItems\<close> returns the same records.
\<close>

theorem clear_keeps_local_state:
  "reorderItems (clear resp s) = reorderItems s \<and>
   pendingSyncItems (clear resp s) = pendingSyncItems s \<and>
   offlineStorage (clear resp s) = offlineStorage s \<and>
   delivered (clear resp s) = delivered s \<and>
   getItems (clear resp s) = getItems s"
  by (simp add: clear_def getItems_def)

subsection \<open>Team data reads\<close>

lemma calls_logCall [simp]: "calls (logCall c s) = calls s @ [c]"
  by (simp add: logCall_def)

lemma calls_cacheSet [simp]: "calls (cacheSet key d t s) = calls s"
  by (simp add: cacheSet_def)

lemma calls_recoverTeamData:
  "calls (snd (recoverTeamDataFromDynamoDB fe key s)) =
     calls s @ [BeforeRequest ''getItemData''] @
       (if fetchMonitorOk fe
        then GetItemData key #
          (case remoteData fe of Resolved (Some d) \<Rightarrow> [UpsertTeamData key] | _ \<Rightarrow> [])
        else [])"
  by (simp add: recoverTeamDataFromDynamoDB_def Let_def split: outcome.splits option.splits)

lemma calls_fetchTeamData_miss:
  "\<not> cacheFresh fe key s \<Longrightarrow>
   calls (snd (fetchTeamData fe key s)) =
     calls s @ GetTeamData key #
       (if localTeam fe = Resolved None
        then BeforeRequest ''getItemData'' #
          (if fetchMonitorOk fe
           then GetItemData key #
             (case remoteData fe of Resolved (Some d) \<Rightarrow> [UpsertTeamData key] | _ \<Rightarrow> [])
           else [])
        else [])"
  by (simp add: fetchTeamData_def calls_recoverTeamData Let_def
      split: outcome.splits option.splits)

text \<open>
  C6. A read of team data for \<open>key\<close>: when the cache holds an entry for \<open>key\<close> written less
  than five minutes (300000 ms) before the clock reading, the cached value is returned
  and the state, with its log of calls, is unchanged, so no remote call is made. When
  the cache holds no entry, or one that is five minutes old or older, the next call is
  the lookup in the local store, and the calls to the remote service that the read adds
  are exactly one \<open>getItemData\<close> for \<open>key\<close> when the local store has no row (and the
  request monitor lets the request pass), and none otherwise.
\<close>

theorem fetchTeamData_cache_then_local_then_remote:
  "(teamDataCache s key = Some (d, t) \<and> fetchNow fe - t < 5 * 60 * 1000 \<longrightarrow>
      fetchTeamData fe key s = (Some d, s)) \<and>
   (teamDataCache s key = None \<or>
    (teamDataCache s key = Some (d, t) \<and> 5 * 60 * 1000 \<le> fetchNow fe - t) \<longrightarrow>
      take (Suc (length (calls s))) (calls (snd (fetchTeamData fe key s)))
        = calls s @ [GetTeamData key] \<and>
      remoteCalls (snd (fetchTeamData fe key s)) =
        remoteCalls s @
          (if localTeam fe = Resolved None \<and> fetchMonitorOk fe then [GetItemData key] else []))"
proof (intro conjI impI)
  assume "teamDataCache s key = Some (d, t) \<and> fetchNow fe - t < 5 * 60 * 1000"
  then show "fetchTeamData fe key s = (Some d, s)"
    by (simp add: fetchTeamData_def cacheFresh_def CACHE_DURATION_def)
next
  assume "teamDataCache s key = None \<or>
    (teamDataCache s key = Some (d, t) \<and> 5 * 60 * 1000 \<le> fetchNow fe - t)"
  then have miss: "\<not> cacheFresh fe key s"
    by (auto simp: cacheFresh_def CACHE_DURATION_def)
  show "take (Suc (length (calls s))) (calls (snd (fetchTeamData fe key s)))
        = calls s @ [GetTeamData key]"
    by (simp add: calls_fetchTeamData_miss [OF miss])
  show "remoteCalls (snd (fetchTeamData fe key s)) =
        remoteCalls s @
          (if localTeam fe = Resolved None \<and> fetchMonitorOk fe then [GetItemData key] else [])"
    by (simp add: remoteCalls_def calls_fetchTeamData_miss [OF miss]
        split: outcome.splits option.splits)
qed

theorem fetchTeamData_cache_then_local_then_remote_witness:
  "(teamDataCache cachedService ''w'' = Some (rowTeamData sampleRow, 900) \<and>
    fetchNow sampleFetchEnv - 900 < 5 * 60 * 1000 \<and>
    fetchTeamData sampleFetchEnv ''w'' cachedService = (Some (rowTeamData sampleRow), cachedService)) \<and>
   (teamDataCache newService ''w'' = None \<and>
    remoteCalls (snd (fetchTeamData sampleFetchEnv ''w'' newService)) = [GetItemData ''w'']) \<and>
   (teamDataCache cachedService ''w'' = Some (rowTeamData sampleRow, 900) \<and>
    5 * 60 * 1000 \<le> fetchNow (sampleFetchEnv\<lparr>fetchNow := 300900, localTeam := Resolved (Some sampleRow)\<rparr>) - 900 \<and>
    remoteCalls (snd (fetchTeamData (sampleFetchEnv\<lparr>fetchNow := 300900, localTeam := Resolved (Some sampleRow)\<rparr>) ''w'' cachedService)) = [])"
proof -
  have c: "teamDataCache cachedService ''w'' = Some (rowTeamData sampleRow, 900)"
    by (simp add: cachedService_def newService_def)
  have n: "teamDataCache newService ''w'' = None"
    by (simp add: newService_def)
  have r: "remoteCalls cachedService = []" "remoteCalls newService = []"
    by (simp_all add: remoteCalls_def cachedService_def newService_def)
  show ?thesis
    using c n r
      fetchTeamData_cache_then_local_then_remote
        [of cachedService "''w''" "rowTeamData sampleRow" 900 sampleFetchEnv]
      fetchTeamData_cache_then_local_then_remote
        [of newService "''w''" "rowTeamData sampleRow" 900 sampleFetchEnv]
      fetchTeamData_cache_then_local_then_remote
        [of cachedService "''w''" "rowTeamData sampleRow" 900
            "sampleFetchEnv\<lparr>fetchNow := 300900, localTeam := Resolved (Some sampleRow)\<rparr>"]
    by (simp add: sampleFetchEnv_def)
qed


subsection \<open>Adding numbers\<close>

declare bitLength.simps [simp del]



subsection \<open>Broadcasts\<close>

lemma notifyThrows_frame [simp]:
  "notifyThrows (notifyListeners s) = notifyThrows s"
  "notifyThrows (logCall c s) = notifyThrows s"
  "notifyThrows (saveOfflineItems ok s) = notifyThrows s"
  "notifyThrows (s\<lparr>isOfflineMode := b\<rparr>) = notifyThrows s"
  by (simp_all add: notifyThrows_def notifyListeners_def logCall_def saveOfflineItems_def Let_def)

lemma isOfflineMode_logCall [simp]: "isOfflineMode (logCall c s) = isOfflineMode s"
  by (simp add: logCall_def)

lemma isOfflineMode_notify [simp]: "isOfflineMode (notifyListeners s) = isOfflineMode s"
  by (simp add: notifyListeners_def)

lemma isOfflineMode_save [simp]: "isOfflineMode (saveOfflineItems ok s) = isOfflineMode s"
  by (simp add: saveOfflineItems_def Let_def)

lemma pendingSyncItems_notify [simp]: "pendingSyncItems (notifyListeners s) = pendingSyncItems s"
  by (simp add: notifyListeners_def)

lemma pendingSyncItems_logCall [simp]: "pendingSyncItems (logCall c s) = pendingSyncItems s"
  by (simp add: logCall_def)

lemma pendingSyncItems_save [simp]: "pendingSyncItems (saveOfflineItems ok s) = pendingSyncItems s"
  by (simp add: saveOfflineItems_def Let_def)

subsection \<open>The local paths\<close>

lemma findIndex_update_same:
  "findIndex P xs = Some i \<Longrightarrow> P x \<Longrightarrow> findIndex P (xs[i := x]) = Some i"
proof (induction xs arbitrary: i)
  case Nil
  then show ?case by simp
next
  case (Cons y ys)
  show ?case
  proof (cases "P y")
    case True
    with Cons.prems show ?thesis by simp
  next
    case False
    with Cons.prems obtain k where k: "findIndex P ys = Some k" "i = Suc k"
      by (auto split: option.splits)
    from Cons.IH [OF k(1) Cons.prems(2)] False k show ?thesis by simp
  qed
qed

lemma replaceOrPush_member: "item \<in> set (replaceOrPush item pending)"
proof (cases "findIndex (\<lambda>p. id' p = id' item) pending")
  case None
  then show ?thesis by (simp add: replaceOrPush_def)
next
  case (Some j)
  then have "j < length pending" using findIndex_Some by blast
  with Some show ?thesis by (simp add: replaceOrPush_def set_update_memI)
qed

lemma reorderItems_addItemLocally:
  "reorderItems (addItemLocally item qty td by overwriteMode e s) =
     (case findIndex (\<lambda>reorderItem. itemId reorderItem = cid item) (reorderItems s) of
        Some i \<Rightarrow> (reorderItems s)[i := localAdd item qty td by overwriteMode e (reorderItems s)]
      | None \<Rightarrow> reorderItems s @ [localAdd item qty td by overwriteMode e (reorderItems s)])"
  by (simp add: addItemLocally_def localAdd_def Let_def split: option.splits)

lemma pendingSyncItems_addItemLocally:
  "pendingSyncItems (addItemLocally item qty td by overwriteMode e s) =
     (case findIndex (\<lambda>reorderItem. itemId reorderItem = cid item) (reorderItems s) of
        Some i \<Rightarrow> replaceOrPush (localAdd item qty td by overwriteMode e (reorderItems s))
                    (pendingSyncItems s)
      | None \<Rightarrow> pendingSyncItems s @ [localAdd item qty td by overwriteMode e (reorderItems s)])"
  by (simp add: addItemLocally_def localAdd_def Let_def split: option.splits)

lemma isOfflineMode_addItemLocally [simp]:
  "isOfflineMode (addItemLocally item qty td by overwriteMode e s) = isOfflineMode s"
  by (simp add: addItemLocally_def Let_def split: option.splits)

lemma addItemLocally_frame:
  "reorderItems (addItemLocally item qty td by overwriteMode e ((logCall c s)\<lparr>isOfflineMode := b\<rparr>))
     = reorderItems (addItemLocally item qty td by overwriteMode e s)"
  "pendingSyncItems (addItemLocally item qty td by overwriteMode e ((logCall c s)\<lparr>isOfflineMode := b\<rparr>))
     = pendingSyncItems (addItemLocally item qty td by overwriteMode e s)"
  "reorderItems (addItemLocally item qty td by overwriteMode e (s\<lparr>isOfflineMode := b\<rparr>))
     = reorderItems (addItemLocally item qty td by overwriteMode e s)"
  "pendingSyncItems (addItemLocally item qty td by overwriteMode e (s\<lparr>isOfflineMode := b\<rparr>))
     = pendingSyncItems (addItemLocally item qty td by overwriteMode e s)"
  "reorderItems (addItemLocally item qty td by overwriteMode e (logCall c s))
     = reorderItems (addItemLocally item qty td by overwriteMode e s)"
  "pendingSyncItems (addItemLocally item qty td by overwriteMode e (logCall c s))
     = pendingSyncItems (addItemLocally item qty td by overwriteMode e s)"
  by (simp_all add: reorderItems_addItemLocally pendingSyncItems_addItemLocally split: option.splits)

lemma itemId_localAdd: "itemId (localAdd item qty td by overwriteMode e items) = cid item"
proof (cases "findIndex (\<lambda>reorderItem. itemId reorderItem = cid item) items")
  case None
  then show ?thesis by (simp add: localAdd_def)
next
  case (Some i)
  then have "itemId (items ! i) = cid item" using findIndex_Some by fastforce
  with Some show ?thesis by (simp add: localAdd_def)
qed

lemma localAdd_in_collection:
  "localAdd item qty td by overwriteMode e (reorderItems s)
     \<in> set (reorderItems (addItemLocally item qty td by overwriteMode e s))"
proof (cases "findIndex (\<lambda>reorderItem. itemId reorderItem = cid item) (reorderItems s)")
  case None
  then show ?thesis by (simp add: reorderItems_addItemLocally)
next
  case (Some i)
  then have "i < length (reorderItems s)" using findIndex_Some by blast
  with Some show ?thesis by (simp add: reorderItems_addItemLocally set_update_memI)
qed

lemma localAdd_in_queue:
  "localAdd item qty td by overwriteMode e (reorderItems s)
     \<in> set (pendingSyncItems (addItemLocally item qty td by overwriteMode e s))"
  by (simp add: pendingSyncItems_addItemLocally replaceOrPush_member split: option.splits)

lemma addCustomLocally_fields:
  "reorderItems (addCustomLocally newItem e s) = newItem # reorderItems s"
  "pendingSyncItems (addCustomLocally newItem e s) = pendingSyncItems s @ [newItem]"
  "isOfflineMode (addCustomLocally newItem e s) = isOfflineMode s"
  by (simp_all add: addCustomLocally_def)

lemma customRecord_frame:
  "customRecord key customItem e (logCall c s\<lparr>isOfflineMode := b\<rparr>) = customRecord key customItem e s"
  by (simp add: customRecord_def)

text \<open>What \<open>addItem\<close> leaves, path by path.\<close>

lemma addItem_paths:
  "isOfflineMode s \<Longrightarrow> \<not> notifyThrows (addItemLocally item qty td by overwriteMode e s) \<Longrightarrow>
   addItem item qty td by overwriteMode e s
     = (Resolved True, addItemLocally item qty td by overwriteMode e s)"
  "isOfflineMode s \<Longrightarrow> notifyThrows (addItemLocally item qty td by overwriteMode e s) \<Longrightarrow>
   addItem item qty td by overwriteMode e s
     = addItemCatch item qty td by overwriteMode e (addItemLocally item qty td by overwriteMode e s)"
  by (simp_all add: addItem_def Let_def)

lemma addItem_rejected:
  "\<not> isOfflineMode s \<Longrightarrow> mutationResponse e = Rejected \<Longrightarrow>
   \<exists>c. addItem item qty td by overwriteMode e s
         = addItemCatch item qty td by overwriteMode e (logCall c s)"
  by (cases "findIndex (\<lambda>reorderItem. itemId reorderItem = cid item) (reorderItems s)")
     (auto simp: addItem_def Let_def)

lemma addItemCatch_fields:
  "snd (addItemCatch item qty td by overwriteMode e s)
     = addItemLocally item qty td (orElse (Some by) ''Unknown User'') overwriteMode e
         (s\<lparr>isOfflineMode := True\<rparr>)"
  "fst (addItemCatch item qty td by overwriteMode e s)
     = (if notifyThrows (snd (addItemCatch item qty td by overwriteMode e s)) then Rejected
        else Resolved True)"
  by (simp_all add: addItemCatch_def Let_def)

subsection \<open>addItem on a record that exists\<close>

lemma localAdd_existing:
  "findIndex (\<lambda>reorderItem. itemId reorderItem = cid item) items = Some i \<Longrightarrow>
   localAdd item qty td by overwriteMode e items =
     (items ! i)\<lparr>quantity := (if overwriteMode then qty else jsPlus (quantity (items ! i)) qty),
                  updatedAt := now e\<rparr>"
  by (simp add: localAdd_def)

lemma reorderItems_addItemLocally_existing:
  "findIndex (\<lambda>reorderItem. itemId reorderItem = cid item) (reorderItems s) = Some i \<Longrightarrow>
   reorderItems (addItemLocally item qty td by overwriteMode e s) =
     (reorderItems s)[i := (reorderItems s ! i)
        \<lparr>quantity := (if overwriteMode then qty else jsPlus (quantity (reorderItems s ! i)) qty),
         updatedAt := now e\<rparr>]"
  by (simp add: reorderItems_addItemLocally localAdd_existing)




text \<open>
  When a listener throws in the broadcast of the offline branch, the \<open>catch\<close> block runs
  the local path once more on the record just written: the quantity is added twice.
\<close>

lemma addItem_listener_throw_repeats_write:
  assumes "findIndex (\<lambda>reorderItem. itemId reorderItem = cid item) (reorderItems s) = Some i"
    and "isOfflineMode s"
    and "notifyThrows (addItemLocally item qty td by overwriteMode e s)"
  shows "quantity (reorderItems (snd (addItem item qty td by overwriteMode e s)) ! i) =
           (if overwriteMode then qty
            else jsPlus (jsPlus (quantity (reorderItems s ! i)) qty) qty)"
proof -
  let ?by = "orElse (Some by) ''Unknown User''"
  let ?s1 = "addItemLocally item qty td by overwriteMode e s"
  let ?new = "(reorderItems s ! i)
           \<lparr>quantity := (if overwriteMode then qty else jsPlus (quantity (reorderItems s ! i)) qty),
            updatedAt := now e\<rparr>"
  from assms(1) have i: "i < length (reorderItems s)" "itemId (reorderItems s ! i) = cid item"
    using findIndex_Some by fastforce+
  have r1: "reorderItems ?s1 = (reorderItems s)[i := ?new]"
    using assms(1) by (rule reorderItems_addItemLocally_existing)
  have f1: "findIndex (\<lambda>reorderItem. itemId reorderItem = cid item) (reorderItems ?s1) = Some i"
    unfolding r1 using assms(1) i(2) by (intro findIndex_update_same) simp_all
  have "reorderItems (snd (addItem item qty td by overwriteMode e s))
          = reorderItems (addItemLocally item qty td ?by overwriteMode e ?s1)"
    using assms(2,3) by (simp add: addItem_paths addItemCatch_fields addItemLocally_frame)
  also have "\<dots> = (reorderItems ?s1)[i := (reorderItems ?s1 ! i)
        \<lparr>quantity := (if overwriteMode then qty else jsPlus (quantity (reorderItems ?s1 ! i)) qty),
         updatedAt := now e\<rparr>]"
    using f1 by (rule reorderItems_addItemLocally_existing)
  finally have r2: "reorderItems (snd (addItem item qty td by overwriteMode e s))
      = (reorderItems ?s1)[i := (reorderItems ?s1 ! i)
        \<lparr>quantity := (if overwriteMode then qty else jsPlus (quantity (reorderItems ?s1 ! i)) qty),
         updatedAt := now e\<rparr>]" .
  have l1: "i < length (reorderItems ?s1)"
    using i(1) by (simp add: r1)
  have q1: "quantity (reorderItems ?s1 ! i) =
      (if overwriteMode then qty else jsPlus (quantity (reorderItems s ! i)) qty)"
    using i(1) by (simp add: r1)
  show ?thesis
    unfolding r2 using l1 q1 by (cases overwriteMode) simp_all
qed

subsection \<open>A remote call that fails\<close>

lemma addCustomItem_rejected:
  "\<not> isOfflineMode s \<Longrightarrow> mutationResponse e = Rejected \<Longrightarrow>
   \<exists>c. addCustomItem customItem e s = addCustomCatch customItem e (logCall c s)"
  by (auto simp: addCustomItem_def Let_def)

lemma addCustomCatch_fields:
  "reorderItems (snd (addCustomCatch customItem e s))
     = customRecord (mintedIdRetry e) customItem e s # reorderItems s"
  "pendingSyncItems (snd (addCustomCatch customItem e s))
     = pendingSyncItems s @ [customRecord (mintedIdRetry e) customItem e s]"
  "isOfflineMode (snd (addCustomCatch customItem e s))"
  "fst (addCustomCatch customItem e s)
     = (if notifyThrows (snd (addCustomCatch customItem e s)) then Rejected else Resolved True)"
  by (simp_all add: addCustomCatch_def Let_def addCustomLocally_fields customRecord_def)

text \<open>
  C5 (amended). When the service is online and the remote call of \<open>addItem\<close> or
  \<open>addCustomItem\<close> is rejected (the promise throws, whatever the error), the service is
  in offline mode afterwards and the write is committed on the local path: after
  \<open>addItem\<close> the collection and the pending queue are those the local path computes
  from the collection and queue before the call, each holding the record for the source
  item; after \<open>addCustomItem\<close> the new record, under the id minted in the fallback, heads
  the collection and ends the queue. The call returns true when no listener throws in
  the broadcast of the fallback. A remote call that resolves without the mutation's
  result is reported as a failure: the call returns false, the service stays online and
  nothing is written.
\<close>

theorem rejected_remote_call_falls_back:
  "(\<not> isOfflineMode s \<and> mutationResponse e = Rejected \<longrightarrow>
     isOfflineMode (snd (addItem item qty td by overwriteMode e s)) \<and>
     reorderItems (snd (addItem item qty td by overwriteMode e s)) =
       reorderItems (addItemLocally item qty td (orElse (Some by) ''Unknown User'') overwriteMode e s) \<and>
     pendingSyncItems (snd (addItem item qty td by overwriteMode e s)) =
       pendingSyncItems (addItemLocally item qty td (orElse (Some by) ''Unknown User'') overwriteMode e s) \<and>
     cid item \<in> itemId ` set (reorderItems (snd (addItem item qty td by overwriteMode e s))) \<and>
     cid item \<in> itemId ` set (pendingSyncItems (snd (addItem item qty td by overwriteMode e s))) \<and>
     (\<not> notifyThrows (snd (addItem item qty td by overwriteMode e s)) \<longrightarrow>
        fst (addItem item qty td by overwriteMode e s) = Resolved True) \<and>
     isOfflineMode (snd (addCustomItem customItem e s)) \<and>
     reorderItems (snd (addCustomItem customItem e s)) =
       customRecord (mintedIdRetry e) customItem e s # reorderItems s \<and>
     pendingSyncItems (snd (addCustomItem customItem e s)) =
       pendingSyncItems s @ [customRecord (mintedIdRetry e) customItem e s] \<and>
     (\<not> notifyThrows (snd (addCustomItem customItem e s)) \<longrightarrow>
        fst (addCustomItem customItem e s) = Resolved True)) \<and>
   (\<not> isOfflineMode s \<and> mutationResponse e = Resolved False \<longrightarrow>
     fst (addItem item qty td by overwriteMode e s) = Resolved False \<and>
     sameLists s (snd (addItem item qty td by overwriteMode e s)) \<and>
     \<not> isOfflineMode (snd (addItem item qty td by overwriteMode e s)) \<and>
     fst (addCustomItem customItem e s) = Resolved False \<and>
     sameLists s (snd (addCustomItem customItem e s)) \<and>
     \<not> isOfflineMode (snd (addCustomItem customItem e s)))"
proof (intro conjI impI)
  assume a: "\<not> isOfflineMode s \<and> mutationResponse e = Resolved False"
  then show "fst (addItem item qty td by overwriteMode e s) = Resolved False"
    "sameLists s (snd (addItem item qty td by overwriteMode e s))"
    "\<not> isOfflineMode (snd (addItem item qty td by overwriteMode e s))"
    "fst (addCustomItem customItem e s) = Resolved False"
    "sameLists s (snd (addCustomItem customItem e s))"
    "\<not> isOfflineMode (snd (addCustomItem customItem e s))"
    by (simp_all add: addItem_def addCustomItem_def Let_def sameLists_def logCall_def
        split: option.splits)
next
  assume a: "\<not> isOfflineMode s \<and> mutationResponse e = Rejected"
  let ?by = "orElse (Some by) ''Unknown User''"
  let ?s1 = "snd (addItem item qty td by overwriteMode e s)"
  let ?r = "localAdd item qty td ?by overwriteMode e (reorderItems s)"
  from a addItem_rejected [of s e item qty td "by" overwriteMode] obtain c where
    c: "addItem item qty td by overwriteMode e s = addItemCatch item qty td by overwriteMode e (logCall c s)"
    by blast
  from a addCustomItem_rejected [of s e customItem] obtain c' where
    c': "addCustomItem customItem e s = addCustomCatch customItem e (logCall c' s)"
    by blast
  show "isOfflineMode ?s1"
    by (simp add: c addItemCatch_fields)
  show items: "reorderItems ?s1 = reorderItems (addItemLocally item qty td ?by overwriteMode e s)"
    by (simp add: c addItemCatch_fields addItemLocally_frame)
  show queue: "pendingSyncItems ?s1 = pendingSyncItems (addItemLocally item qty td ?by overwriteMode e s)"
    by (simp add: c addItemCatch_fields addItemLocally_frame)
  have "?r \<in> set (reorderItems ?s1)"
    unfolding items by (rule localAdd_in_collection)
  then show "cid item \<in> itemId ` set (reorderItems ?s1)"
    using itemId_localAdd [of item qty td ?by overwriteMode e "reorderItems s"]
    by (metis imageI)
  have "?r \<in> set (pendingSyncItems ?s1)"
    unfolding queue by (rule localAdd_in_queue)
  then show "cid item \<in> itemId ` set (pendingSyncItems ?s1)"
    using itemId_localAdd [of item qty td ?by overwriteMode e "reorderItems s"]
    by (metis imageI)
  show "fst (addItem item qty td by overwriteMode e s) = Resolved True"
    if "\<not> notifyThrows ?s1"
    using that by (simp add: c addItemCatch_fields)
  show "isOfflineMode (snd (addCustomItem customItem e s))"
    by (simp add: c' addCustomCatch_fields)
  show "reorderItems (snd (addCustomItem customItem e s)) =
       customRecord (mintedIdRetry e) customItem e s # reorderItems s"
    by (simp add: c' addCustomCatch_fields customRecord_def)
  show "pendingSyncItems (snd (addCustomItem customItem e s)) =
       pendingSyncItems s @ [customRecord (mintedIdRetry e) customItem e s]"
    by (simp add: c' addCustomCatch_fields customRecord_def)
  show "fst (addCustomItem customItem e s) = Resolved True"
    if "\<not> notifyThrows (snd (addCustomItem customItem e s))"
    using that by (simp add: c' addCustomCatch_fields)
qed

theorem rejected_remote_call_falls_back_witness:
  "\<not> isOfflineMode twoItems \<and> mutationResponse failingEnv = Rejected \<and>
   isOfflineMode (snd (addItem widget 3 None ''ann'' False failingEnv twoItems)) \<and>
   cid widget \<in> itemId ` set (pendingSyncItems (snd (addItem widget 3 None ''ann'' False failingEnv twoItems))) \<and>
   \<not> notifyThrows (snd (addItem widget 3 None ''ann'' False failingEnv twoItems)) \<and>
   fst (addItem widget 3 None ''ann'' False failingEnv twoItems) = Resolved True \<and>
   isOfflineMode (snd (addCustomItem sampleCustom failingEnv twoItems)) \<and>
   length (reorderItems (snd (addCustomItem sampleCustom failingEnv twoItems))) = 3 \<and>
   \<not> notifyThrows (snd (addCustomItem sampleCustom failingEnv twoItems)) \<and>
   fst (addCustomItem sampleCustom failingEnv twoItems) = Resolved True \<and>
   mutationResponse noDataEnv = Resolved False \<and>
   fst (addItem widget 3 None ''ann'' False noDataEnv twoItems) = Resolved False \<and>
   \<not> isOfflineMode (snd (addItem widget 3 None ''ann'' False noDataEnv twoItems))"
proof -
  have h: "\<not> isOfflineMode twoItems \<and> mutationResponse failingEnv = Rejected"
    "\<not> isOfflineMode twoItems \<and> mutationResponse noDataEnv = Resolved False"
    by (simp_all add: twoItems_def newService_def failingEnv_def noDataEnv_def)
  have l: "length (reorderItems twoItems) = 2"
    by (simp add: twoItems_def newService_def)
  have quiet: "\<not> notifyThrows (snd (addItem widget 3 None ''ann'' False failingEnv twoItems))"
    "\<not> notifyThrows (snd (addCustomItem sampleCustom failingEnv twoItems))"
    by (simp_all add: notifyThrows_def addItem_def addItemCatch_def addItemLocally_def
        addCustomItem_def addCustomCatch_def addCustomLocally_def saveOfflineItems_def
        notifyListeners_def logCall_def Let_def twoItems_def newService_def failingEnv_def
        sampleEnv_def split: option.splits)
  from h(1) quiet rejected_remote_call_falls_back
      [of twoItems failingEnv widget 3 None "''ann''" False sampleCustom]
  have 1: "isOfflineMode (snd (addItem widget 3 None ''ann'' False failingEnv twoItems)) \<and>
   cid widget \<in> itemId ` set (pendingSyncItems (snd (addItem widget 3 None ''ann'' False failingEnv twoItems))) \<and>
   fst (addItem widget 3 None ''ann'' False failingEnv twoItems) = Resolved True \<and>
   isOfflineMode (snd (addCustomItem sampleCustom failingEnv twoItems)) \<and>
   reorderItems (snd (addCustomItem sampleCustom failingEnv twoItems)) =
     customRecord (mintedIdRetry failingEnv) sampleCustom failingEnv twoItems # reorderItems twoItems \<and>
   fst (addCustomItem sampleCustom failingEnv twoItems) = Resolved True"
    by blast
  from h(2) rejected_remote_call_falls_back
      [of twoItems noDataEnv widget 3 None "''ann''" False sampleCustom]
  have 2: "fst (addItem widget 3 None ''ann'' False noDataEnv twoItems) = Resolved False \<and>
   \<not> isOfflineMode (snd (addItem widget 3 None ''ann'' False noDataEnv twoItems))"
    by blast
  from h l quiet 1 2 show ?thesis by simp
qed

text \<open>
  The claim as stated fails twice. Online with a listener that throws, a rejected remote
  call makes \<open>addItem\<close> and \<open>addCustomItem\<close> write locally and then reject instead of
  returning true. And a remote call that fails by resolving without data makes
  \<open>addItem\<close> return false with the service still online.
\<close>

theorem remote_failure_surfaces_counterexample:
  "\<not> isOfflineMode heckled \<and> mutationResponse failingEnv = Rejected \<and>
   fst (addItem widget 3 None ''ann'' False failingEnv heckled) = Rejected \<and>
   fst (addCustomItem sampleCustom failingEnv heckled) = Rejected \<and>
   \<not> isOfflineMode twoItems \<and> mutationResponse noDataEnv = Resolved False \<and>
   fst (addItem widget 3 None ''ann'' False noDataEnv twoItems) = Resolved False \<and>
   \<not> isOfflineMode (snd (addItem widget 3 None ''ann'' False noDataEnv twoItems))"
  by (simp add: notifyThrows_def addItem_def addItemCatch_def addItemLocally_def
      addCustomItem_def addCustomCatch_def addCustomLocally_def saveOfflineItems_def
      notifyListeners_def logCall_def Let_def heckled_def twoItems_def newService_def
      failingEnv_def noDataEnv_def sampleEnv_def sampleItem_def widget_def)

subsection \<open>Flushing the pending queue\<close>

lemma syncLoop_confirmed:
  "syncLoop resp k items acc =
     acc @ map (\<lambda>(k, item). id' item)
             (filter (\<lambda>(k, item). resp k = Resolved True) (enumerate k items))"
  by (induction items arbitrary: k acc) simp_all

lemma pendingSyncItems_syncPendingItems:
  "pendingSyncItems (syncPendingItems resp s) =
     filter (\<lambda>item. id' item \<notin> set (confirmedIds resp (pendingSyncItems s))) (pendingSyncItems s)"
proof (cases "pendingSyncItems s = []")
  case True
  then show ?thesis by (simp add: syncPendingItems_def)
next
  case False
  then show ?thesis
    by (simp add: syncPendingItems_def Let_def confirmedIds_def syncLoop_confirmed)
qed

lemma confirmedIds_iff:
  "X \<in> set (confirmedIds resp pending) \<longleftrightarrow>
     (\<exists>k < length pending. id' (pending ! k) = X \<and> resp k = Resolved True)"
proof -
  have "set (filter (\<lambda>(k, item). resp k = Resolved True) (enumerate 0 pending))
      = {(k, pending ! k) | k. k < length pending \<and> resp k = Resolved True}"
    by (auto simp: in_set_enumerate_eq)
  then show ?thesis
    by (auto simp: confirmedIds_def image_iff)
qed

subsection \<open>Identifiers under the building blocks\<close>

lemma ids_reindex [simp]: "ids (reindex xs) = ids xs"
proof -
  have "map id' (map (\<lambda>(i, item). item\<lparr>index := Some (i + 1)\<rparr>) (enumerate n xs)) = map id' xs" for n
    by (induction xs arbitrary: n) simp_all
  then show ?thesis by (simp only: ids_def reindex_def)
qed

lemma ids_stampAndIndex [simp]: "ids (stampAndIndex xs) = ids xs"
proof -
  have "map id' (map (\<lambda>(i, item). item\<lparr>timestamp := Some (createdAt item), index := Some (i + 1)\<rparr>)
          (enumerate n xs)) = map id' xs" for n
    by (induction xs arbitrary: n) simp_all
  then show ?thesis by (simp only: ids_def stampAndIndex_def)
qed


lemma ids_update_same:
  "i < length xs \<Longrightarrow> id' x = id' (xs ! i) \<Longrightarrow> ids (xs[i := x]) = ids xs"
  by (simp add: ids_def map_update list_update_same_conv)


lemma ids_replaceOrPush:
  "distinct (ids pending) \<Longrightarrow> distinct (ids (replaceOrPush item pending))"
proof (cases "findIndex (\<lambda>p. id' p = id' item) pending")
  case None
  assume "distinct (ids pending)"
  moreover from None have "id' item \<notin> set (ids pending)"
    by (auto simp: findIndex_None ids_def)
  ultimately show ?thesis using None by (simp add: replaceOrPush_def ids_def)
next
  case (Some j)
  assume d: "distinct (ids pending)"
  from Some have "j < length pending" "id' (pending ! j) = id' item"
    using findIndex_Some by fastforce+
  then have "ids (pending[j := item]) = ids pending"
    by (simp add: ids_update_same)
  with d Some show ?thesis by (simp add: replaceOrPush_def)
qed

lemma set_ids_replaceOrPush:
  "set (ids (replaceOrPush item pending)) = insert (id' item) (set (ids pending))"
proof (cases "findIndex (\<lambda>p. id' p = id' item) pending")
  case None
  then show ?thesis by (simp add: replaceOrPush_def ids_def)
next
  case (Some j)
  then have j: "j < length pending" "id' (pending ! j) = id' item"
    using findIndex_Some by fastforce+
  then have "ids (pending[j := item]) = ids pending"
    by (simp add: ids_update_same)
  moreover have "id' item \<in> set (ids pending)"
    using j by (metis ids_def length_map nth_map nth_mem)
  ultimately show ?thesis using Some by (auto simp: replaceOrPush_def)
qed

subsection \<open>What each building block does to the three lists\<close>

lemma offlineStorage_logCall [simp]: "offlineStorage (logCall c s) = offlineStorage s"
  by (simp add: logCall_def)

lemma offlineStorage_notify [simp]: "offlineStorage (notifyListeners s) = offlineStorage s"
  by (simp add: notifyListeners_def)

lemma sameLists_refl [simp]: "sameLists s s"
  by (simp add: sameLists_def)

lemma sameLists_trans: "sameLists s s1 \<Longrightarrow> sameLists s1 s2 \<Longrightarrow> sameLists s s2"
  by (simp add: sameLists_def)

lemma sameLists_logCall [simp]: "sameLists s (logCall c s)"
  by (simp add: sameLists_def)

lemma sameLists_notify [simp]: "sameLists s (notifyListeners s)"
  by (simp add: sameLists_def)

lemma sameLists_cacheSet [simp]: "sameLists s (cacheSet key d t s)"
  by (simp add: sameLists_def cacheSet_def)

lemma sameLists_recoverTeamData: "sameLists s (snd (recoverTeamDataFromDynamoDB fe key s))"
  by (simp add: recoverTeamDataFromDynamoDB_def Let_def sameLists_def cacheSet_def
      split: outcome.splits option.splits)

lemma sameLists_fetchTeamData: "sameLists s (snd (fetchTeamData fe key s))"
proof (cases "localTeam fe")
  case Rejected
  then show ?thesis by (simp add: fetchTeamData_def Let_def)
next
  case (Resolved row)
  show ?thesis
  proof (cases row)
    case None
    have "sameLists (logCall (GetTeamData key) s)
            (snd (recoverTeamDataFromDynamoDB fe key (logCall (GetTeamData key) s)))"
      by (rule sameLists_recoverTeamData)
    then have "sameLists s (snd (recoverTeamDataFromDynamoDB fe key (logCall (GetTeamData key) s)))"
      by (simp add: sameLists_def)
    with Resolved None show ?thesis by (simp add: fetchTeamData_def Let_def)
  next
    case (Some r)
    with Resolved show ?thesis
      by (simp add: fetchTeamData_def Let_def sameLists_def cacheSet_def)
  qed
qed

lemma loadTeamDataLoop_frame:
  "sameLists s (snd (loadTeamDataLoop fe k items s)) \<and>
   ids (fst (loadTeamDataLoop fe k items s)) = ids items"
proof (induction items arbitrary: k s)
  case Nil
  then show ?case by simp
next
  case (Cons item rest)
  obtain found s1 where f: "fetchTeamData (fe k) (itemId item) s = (found, s1)"
    by (cases "fetchTeamData (fe k) (itemId item) s")
  obtain rest' s2 where l: "loadTeamDataLoop fe (Suc k) rest s1 = (rest', s2)"
    by (cases "loadTeamDataLoop fe (Suc k) rest s1")
  from sameLists_fetchTeamData [of s "fe k" "itemId item"] f have 1: "sameLists s s1"
    by simp
  from Cons.IH [where k = "Suc k" and s = s1] l have 2: "sameLists s1 s2" "ids rest' = ids rest"
    by simp_all
  from 1 2(1) have "sameLists s s2" by (rule sameLists_trans)
  with 2(2) f l show ?case
    by (simp add: ids_def split: option.splits)
qed

lemma loadTeamDataForItems_frame:
  "pendingSyncItems (loadTeamDataForItems fe s) = pendingSyncItems s"
  "offlineStorage (loadTeamDataForItems fe s) = offlineStorage s"
  "ids (reorderItems (loadTeamDataForItems fe s)) = ids (reorderItems s)"
proof -
  obtain items s' where l: "loadTeamDataLoop fe 0 (reorderItems s) s = (items, s')"
    by (cases "loadTeamDataLoop fe 0 (reorderItems s) s")
  from loadTeamDataLoop_frame [of s fe 0 "reorderItems s"] l
  have f: "sameLists s s'" "ids items = ids (reorderItems s)"
    by simp_all
  show "pendingSyncItems (loadTeamDataForItems fe s) = pendingSyncItems s"
    using f l by (simp add: loadTeamDataForItems_def sameLists_def)
  show "offlineStorage (loadTeamDataForItems fe s) = offlineStorage s"
    using f l by (simp add: loadTeamDataForItems_def sameLists_def)
  show "ids (reorderItems (loadTeamDataForItems fe s)) = ids (reorderItems s)"
    using f l by (simp add: loadTeamDataForItems_def)
qed

lemma loadOfflineItems_frame:
  "pendingSyncItems (loadOfflineItems ok s) = pendingSyncItems s"
  "offlineStorage (loadOfflineItems ok s) = offlineStorage s"
  by (simp_all add: loadOfflineItems_def Let_def split: option.splits)


lemma checkAuthStatus_frame [simp]: "sameLists s (snd (checkAuthStatus ok s))"
  by (simp add: checkAuthStatus_def sameLists_def)


lemma recoverFromDynamoDB_frame:
  "pendingSyncItems (recoverFromDynamoDB e s) = pendingSyncItems s"
  "offlineStorage (recoverFromDynamoDB e s) = offlineStorage s"
  by (simp_all add: recoverFromDynamoDB_def Let_def loadTeamDataForItems_frame
      saveReorderItemsLocally_def split: outcome.splits option.splits)


lemma loadReorderItems_frame:
  "pendingSyncItems (loadReorderItems e s) = pendingSyncItems s"
  "offlineStorage (loadReorderItems e s) = offlineStorage s"
  by (simp_all add: loadReorderItems_def loadLocalReorderItems_def loadTeamDataForItems_frame
      recoverFromDynamoDB_frame split: outcome.splits)



lemma uniqueIds_sameLists: "sameLists s s' \<Longrightarrow> uniqueIds s' = uniqueIds s"
  by (simp add: uniqueIds_def sameLists_def)

lemma uniquePending_sameLists: "sameLists s s' \<Longrightarrow> uniquePending s' = uniquePending s"
  by (simp add: uniquePending_def sameLists_def)

lemma initialize_pending: "pendingSyncItems (snd (initialize userId e s)) = pendingSyncItems s"
  by (simp add: initialize_def checkAuthStatus_def Let_def loadReorderItems_frame
      loadOfflineItems_frame setupSubscriptions_def)



lemma uniqueIds_notify [simp]: "uniqueIds (notifyListeners s) = uniqueIds s"
  by (rule uniqueIds_sameLists) simp

lemma uniqueIds_other_fields [simp]:
  "uniqueIds (s\<lparr>isInitialized := b\<rparr>) = uniqueIds s"
  "uniqueIds (s\<lparr>currentUserId := u\<rparr>) = uniqueIds s"
  "uniqueIds (s\<lparr>listeners := ls\<rparr>) = uniqueIds s"
  "uniqueIds (s\<lparr>isOfflineMode := b\<rparr>) = uniqueIds s"
  "uniqueIds (logCall c s) = uniqueIds s"
  "uniqueIds (deliver l s) = uniqueIds s"
  by (simp_all add: uniqueIds_def deliver_def)






lemma addListener_pending: "pendingSyncItems (addListener l e s) = pendingSyncItems s"
proof -
  have "pendingSyncItems (snd (initialize u e (s\<lparr>listeners := ls\<rparr>))) = pendingSyncItems s" for u ls
    by (simp add: initialize_pending)
  then show ?thesis
    by (simp add: addListener_def deliver_def Let_def split: prod.splits) (metis snd_conv)
qed


subsection \<open>Identifiers under the local writes\<close>

lemma uniqueIds_save:
  "distinct (ids (reorderItems s)) \<Longrightarrow> uniqueIds s0 \<Longrightarrow> offlineStorage s = offlineStorage s0 \<Longrightarrow>
   uniqueIds (saveOfflineItems ok s)"
  by (simp add: uniqueIds_def saveOfflineItems_def Let_def)









lemma uniquePending_other_fields [simp]:
  "uniquePending (s\<lparr>isOfflineMode := b\<rparr>) = uniquePending s"
  "uniquePending (logCall c s) = uniquePending s"
  "uniquePending (notifyListeners s) = uniquePending s"
  "uniquePending (saveOfflineItems ok s) = uniquePending s"
  by (simp_all add: uniquePending_def)



lemma id_customRecord [simp]: "id' (customRecord key customItem e s) = key"
  by (simp add: customRecord_def)








lemma removeItemLocally_pending:
  "pendingSyncItems (removeItemLocally key e s) =
     (case findIndex (\<lambda>item. id' item = key) (reorderItems s) of
        Some i \<Rightarrow> filter (\<lambda>item. id' item \<noteq> key) (pendingSyncItems s)
      | None \<Rightarrow> pendingSyncItems s)"
  by (simp add: removeItemLocally_def split: option.splits)


lemma removeItem_pending:
  "pendingSyncItems (removeItem key e s) =
     (if (isOfflineMode s \<or> mutationResponse e = Rejected) \<and>
         findIndex (\<lambda>item. id' item = key) (reorderItems s) \<noteq> None
      then filter (\<lambda>item. id' item \<noteq> key) (pendingSyncItems s)
      else pendingSyncItems s)"
  by (auto simp: removeItem_def Let_def removeItemLocally_pending
      split: outcome.splits option.splits)


lemma toggleLocally_unique:
  "uniqueIds s \<Longrightarrow> i < length (reorderItems s) \<Longrightarrow> uniqueIds (toggleLocally i e s)"
  by (simp add: toggleLocally_def uniqueIds_def saveOfflineItems_def Let_def ids_update_same)

lemma toggleLocally_pending:
  "pendingSyncItems (toggleLocally i e s) =
     replaceOrPush ((reorderItems s ! i)\<lparr>completed := \<not> completed (reorderItems s ! i),
                                          updatedAt := now e\<rparr>) (pendingSyncItems s)"
  by (simp add: toggleLocally_def Let_def)

lemma uniqueIds_logHistory [simp]: "uniqueIds (logHistory item userName s) = uniqueIds s"
  by (simp add: logHistory_def)

lemma logHistory_lists [simp]:
  "reorderItems (logHistory item userName s) = reorderItems s"
  "pendingSyncItems (logHistory item userName s) = pendingSyncItems s"
  "isOfflineMode (logHistory item userName s) = isOfflineMode s"
  by (simp_all add: logHistory_def)

lemma toggleLocally_uniquePending: "uniquePending s \<Longrightarrow> uniquePending (toggleLocally i e s)"
  by (simp add: uniquePending_def toggleLocally_pending ids_replaceOrPush)

text \<open>
  A property that the log writes, the switch to offline mode and a local toggle at the
  position of the record keep is kept by \<open>toggleCompletion\<close>, whichever path it takes.
\<close>

lemma toggleCatch_keeps:
  assumes "P x"
    and off: "\<And>x. P x \<Longrightarrow> P (x\<lparr>isOfflineMode := True\<rparr>)"
    and hist: "\<And>item u x. P x \<Longrightarrow> P (logHistory item u x)"
    and tog: "\<And>i x. P x \<Longrightarrow> findIndex (\<lambda>item. id' item = key) (reorderItems x) = Some i \<Longrightarrow>
                P (toggleLocally i e x)"
  shows "P (toggleCatch key userName e x)"
proof (cases "findIndex (\<lambda>item. id' item = key) (reorderItems x)")
  case None
  then show ?thesis by (simp add: toggleCatch_def off assms(1))
next
  case (Some j)
  have "P (toggleLocally j e (logHistory (reorderItems x ! j) userName (x\<lparr>isOfflineMode := True\<rparr>)))"
    using Some by (intro tog hist off assms(1)) simp
  with Some show ?thesis by (simp add: toggleCatch_def)
qed

lemma toggleCompletion_keeps:
  assumes base: "P s"
    and log: "\<And>c x. P x \<Longrightarrow> P (logCall c x)"
    and off: "\<And>x. P x \<Longrightarrow> P (x\<lparr>isOfflineMode := True\<rparr>)"
    and hist: "\<And>item u x. P x \<Longrightarrow> P (logHistory item u x)"
    and tog: "\<And>i x. P x \<Longrightarrow> findIndex (\<lambda>item. id' item = key) (reorderItems x) = Some i \<Longrightarrow>
                P (toggleLocally i e x)"
  shows "P (toggleCompletion key userName e s)"
proof (cases "findIndex (\<lambda>item. id' item = key) (reorderItems s)")
  case None
  then show ?thesis by (simp add: toggleCompletion_def base)
next
  case (Some i)
  have c: "P (toggleCatch key userName e x)" if "P x" for x
    using that off hist tog by (rule toggleCatch_keeps)
  have l: "P (toggleLocally i e (logHistory (reorderItems s ! i) userName s))"
    using Some by (intro tog hist base) simp
  show ?thesis
    using Some by (simp add: toggleCompletion_def Let_def l c log hist base split: outcome.splits)
qed

lemma uniquePending_logHistory [simp]:
  "uniquePending (logHistory item userName s) = uniquePending s"
  by (simp add: uniquePending_def)

lemma toggleCatch_unique: "uniqueIds s \<Longrightarrow> uniqueIds (toggleCatch key userName e s)"
proof (rule toggleCatch_keeps)
  fix i x
  assume "uniqueIds x" "findIndex (\<lambda>item. id' item = key) (reorderItems x) = Some i"
  then show "uniqueIds (toggleLocally i e x)"
    using findIndex_Some by (intro toggleLocally_unique) blast+
qed simp_all

lemma toggleCatch_uniquePending:
  "uniquePending s \<Longrightarrow> uniquePending (toggleCatch key userName e s)"
  by (rule toggleCatch_keeps) (simp_all add: toggleLocally_uniquePending)



subsection \<open>Identifiers under the real-time handlers\<close>

lemma handlers_pending [simp]:
  "pendingSyncItems (handleReorderItemCreated newItem s) = pendingSyncItems s"
  "pendingSyncItems (handleReorderItemUpdated updatedItem s) = pendingSyncItems s"
  "pendingSyncItems (handleReorderItemDeleted deletedItem s) = pendingSyncItems s"
  "pendingSyncItems (handleTeamDataUpdate d t s) = pendingSyncItems s"
  by (simp_all add: handleReorderItemCreated_def handleReorderItemUpdated_def
      handleReorderItemDeleted_def handleTeamDataUpdate_def cacheSet_def Let_def
      split: option.splits)

lemma handlers_storage [simp]:
  "offlineStorage (handleReorderItemCreated newItem s) = offlineStorage s"
  "offlineStorage (handleReorderItemUpdated updatedItem s) = offlineStorage s"
  "offlineStorage (handleReorderItemDeleted deletedItem s) = offlineStorage s"
  "offlineStorage (handleTeamDataUpdate d t s) = offlineStorage s"
  by (simp_all add: handleReorderItemCreated_def handleReorderItemUpdated_def
      handleReorderItemDeleted_def handleTeamDataUpdate_def cacheSet_def Let_def
      split: option.splits)







subsection \<open>Identifiers along a run\<close>









lemmas sample_defs =
  sampleRun_def offlineWidget_def twoItems_def newService_def sampleItem_def
  sampleEnv_def gadget_def widget_def ids_def handleReorderItemCreated_def addItem_def
  addItemLocally_def toggleCompletion_def toggleLocally_def logHistory_def replaceOrPush_def
  saveOfflineItems_def notifyListeners_def notifyThrows_def addItemCatch_def toggleCatch_def
  logCall_def orElse_def orUndefined_def Let_def



subsection \<open>The pending queue\<close>








subsection \<open>Which operations take an entry out of the queue\<close>

lemma filter_by_id_filter:
  "X \<notin> set synced \<Longrightarrow>
   filter (\<lambda>p. id' p = X) (filter (\<lambda>item. id' item \<notin> set synced) pending)
     = filter (\<lambda>p. id' p = X) pending"
  by (induction pending) auto

lemma set_ids_filter:
  "set (ids (filter P xs)) = {id' x | x. x \<in> set xs \<and> P x}"
  by (auto simp: ids_def)

lemma pending_kept_addItemLocally:
  "set (ids (pendingSyncItems x))
     \<subseteq> set (ids (pendingSyncItems (addItemLocally item qty td b overwriteMode e x)))"
proof (cases "findIndex (\<lambda>reorderItem. itemId reorderItem = cid item) (reorderItems x)")
  case None
  then show ?thesis by (auto simp: pendingSyncItems_addItemLocally ids_def)
next
  case (Some i)
  then show ?thesis by (auto simp: pendingSyncItems_addItemLocally set_ids_replaceOrPush)
qed

lemma pending_kept_addItemCatch:
  "set (ids (pendingSyncItems x))
     \<subseteq> set (ids (pendingSyncItems (snd (addItemCatch item qty td by overwriteMode e x))))"
  using pending_kept_addItemLocally [of "x\<lparr>isOfflineMode := True\<rparr>"]
  by (simp add: addItemCatch_fields)

lemma pending_kept_addItem:
  "set (ids (pendingSyncItems s)) \<subseteq> set (ids (pendingSyncItems (snd (addItem item qty td by overwriteMode e s))))"
proof (cases "isOfflineMode s")
  case True
  let ?s1 = "addItemLocally item qty td by overwriteMode e s"
  have 1: "set (ids (pendingSyncItems s)) \<subseteq> set (ids (pendingSyncItems ?s1))"
    by (rule pending_kept_addItemLocally)
  have 2: "set (ids (pendingSyncItems ?s1))
             \<subseteq> set (ids (pendingSyncItems (snd (addItemCatch item qty td by overwriteMode e ?s1))))"
    by (rule pending_kept_addItemCatch)
  show ?thesis
  proof (cases "notifyThrows ?s1")
    case False
    with True 1 show ?thesis by (simp add: addItem_paths)
  next
    case t: True
    from 1 2 show ?thesis unfolding addItem_paths(2) [OF True t] by (rule subset_trans)
  qed
next
  case False
  show ?thesis
  proof (cases "mutationResponse e")
    case (Resolved present)
    with False show ?thesis
      by (simp add: addItem_def Let_def split: option.splits)
  next
    case Rejected
    from addItem_rejected [OF False Rejected] obtain c where
      c: "addItem item qty td by overwriteMode e s
            = addItemCatch item qty td by overwriteMode e (logCall c s)"
      by blast
    show ?thesis
      unfolding c using pending_kept_addItemCatch [of "logCall c s"] by simp
  qed
qed

lemma pending_kept_addCustomItem:
  "set (ids (pendingSyncItems s)) \<subseteq> set (ids (pendingSyncItems (snd (addCustomItem customItem e s))))"
proof (cases "isOfflineMode s")
  case True
  then show ?thesis
    by (auto simp: addCustomItem_def Let_def addCustomLocally_fields addCustomCatch_fields ids_def)
next
  case False
  show ?thesis
  proof (cases "mutationResponse e")
    case (Resolved present)
    with False show ?thesis
      by (simp add: addCustomItem_def Let_def)
  next
    case Rejected
    from addCustomItem_rejected [OF False Rejected] obtain c where
      c: "addCustomItem customItem e s = addCustomCatch customItem e (logCall c s)"
      by blast
    show ?thesis
      unfolding c by (auto simp: addCustomCatch_fields ids_def)
  qed
qed

lemma pending_kept_toggleCompletion:
  "set (ids (pendingSyncItems s)) \<subseteq> set (ids (pendingSyncItems (toggleCompletion key userName e s)))"
proof (rule toggleCompletion_keeps
    [where P = "\<lambda>x. set (ids (pendingSyncItems s)) \<subseteq> set (ids (pendingSyncItems x))"])
  fix i and x :: ReorderService
  assume "set (ids (pendingSyncItems s)) \<subseteq> set (ids (pendingSyncItems x))"
  then show "set (ids (pendingSyncItems s)) \<subseteq> set (ids (pendingSyncItems (toggleLocally i e x)))"
    by (auto simp: toggleLocally_pending set_ids_replaceOrPush)
qed simp_all

lemma pending_kept_removeItem:
  "X \<noteq> key \<Longrightarrow> X \<in> set (ids (pendingSyncItems s)) \<Longrightarrow>
   X \<in> set (ids (pendingSyncItems (removeItem key e s)))"
  by (auto simp: removeItem_pending ids_def)

text \<open>
  C2 (amended). A flush takes the entries keyed \<open>X\<close> out of the queue if and only if the
  remote confirmed the resubmission of an entry keyed \<open>X\<close> in that flush; when none was
  confirmed (the call threw or came back without data) the entries keyed \<open>X\<close> after the
  flush are the entries keyed \<open>X\<close> before it, so a flush that is tried again finds them
  as they were, once each. Apart from a flush (which \<open>refresh\<close> runs), the one operation
  that takes an entry keyed \<open>X\<close> out of the queue is \<open>removeItem(X)\<close>: on its local path
  it deletes the record \<open>X\<close> together with every pending entry keyed \<open>X\<close>, with no remote
  confirmation.
\<close>

theorem pending_entry_leaves_on_confirmation_or_removal:
  "(X \<in> set (ids (pendingSyncItems s)) \<longrightarrow>
      (X \<notin> set (ids (pendingSyncItems (syncPendingItems resp s))) \<longleftrightarrow>
       (\<exists>k < length (pendingSyncItems s).
          id' (pendingSyncItems s ! k) = X \<and> resp k = Resolved True))) \<and>
   (\<not> (\<exists>k < length (pendingSyncItems s).
          id' (pendingSyncItems s ! k) = X \<and> resp k = Resolved True) \<longrightarrow>
      filter (\<lambda>p. id' p = X) (pendingSyncItems (syncPendingItems resp s))
        = filter (\<lambda>p. id' p = X) (pendingSyncItems s)) \<and>
   ((isOfflineMode s \<or> mutationResponse e = Rejected) \<and> X \<in> set (ids (reorderItems s)) \<longrightarrow>
      X \<notin> set (ids (pendingSyncItems (removeItem X e s)))) \<and>
   (X \<in> set (ids (pendingSyncItems s)) \<and> X \<notin> set (ids (pendingSyncItems (exec op s))) \<longrightarrow>
      (\<exists>r. op = SyncPendingItems r) \<or> (\<exists>e'. op = Refresh e') \<or> (\<exists>e'. op = RemoveItem X e'))"
proof (intro conjI impI)
  assume x: "X \<in> set (ids (pendingSyncItems s))"
  show "X \<notin> set (ids (pendingSyncItems (syncPendingItems resp s))) \<longleftrightarrow>
       (\<exists>k < length (pendingSyncItems s).
          id' (pendingSyncItems s ! k) = X \<and> resp k = Resolved True)"
    using x
    by (auto simp: pendingSyncItems_syncPendingItems set_ids_filter ids_def
        simp flip: confirmedIds_iff)
next
  assume "\<not> (\<exists>k < length (pendingSyncItems s).
          id' (pendingSyncItems s ! k) = X \<and> resp k = Resolved True)"
  then have "X \<notin> set (confirmedIds resp (pendingSyncItems s))"
    by (simp add: confirmedIds_iff)
  then show "filter (\<lambda>p. id' p = X) (pendingSyncItems (syncPendingItems resp s))
        = filter (\<lambda>p. id' p = X) (pendingSyncItems s)"
    unfolding pendingSyncItems_syncPendingItems by (rule filter_by_id_filter)
next
  assume a: "(isOfflineMode s \<or> mutationResponse e = Rejected) \<and> X \<in> set (ids (reorderItems s))"
  then have "findIndex (\<lambda>item. id' item = X) (reorderItems s) \<noteq> None"
    by (auto simp: findIndex_None ids_def)
  with a show "X \<notin> set (ids (pendingSyncItems (removeItem X e s)))"
    by (auto simp: removeItem_pending ids_def)
next
  assume a: "X \<in> set (ids (pendingSyncItems s)) \<and> X \<notin> set (ids (pendingSyncItems (exec op s)))"
  show "(\<exists>r. op = SyncPendingItems r) \<or> (\<exists>e'. op = Refresh e') \<or> (\<exists>e'. op = RemoveItem X e')"
  proof (cases op)
    case (AddItem item qty td b ow e')
    with a pending_kept_addItem [of s item qty td b ow e'] show ?thesis by auto
  next
    case (AddCustomItem c e')
    with a pending_kept_addCustomItem [of s c e'] show ?thesis by auto
  next
    case (ToggleCompletion key u e')
    with a pending_kept_toggleCompletion [of s key u e'] show ?thesis by auto
  next
    case (RemoveItem key e')
    with a pending_kept_removeItem [of X key s e'] show ?thesis by auto
  qed (use a in \<open>simp_all add: initialize_pending addListener_pending clear_def removeListener_def\<close>)
qed

theorem pending_entry_leaves_on_confirmation_or_removal_witness:
  "''a'' \<in> set (ids (pendingSyncItems twoQueued)) \<and>
   id' (pendingSyncItems twoQueued ! 0) = ''a'' \<and> firstOnly 0 = Resolved True \<and>
   ''a'' \<notin> set (ids (pendingSyncItems (syncPendingItems firstOnly twoQueued))) \<and>
   ''b'' \<in> set (ids (pendingSyncItems (syncPendingItems firstOnly twoQueued))) \<and>
   filter (\<lambda>p. id' p = ''b'') (pendingSyncItems (syncPendingItems firstOnly twoQueued))
     = filter (\<lambda>p. id' p = ''b'') (pendingSyncItems twoQueued) \<and>
   ids (pendingSyncItems (syncPendingItems (\<lambda>k. Rejected) (syncPendingItems firstOnly twoQueued)))
     = [''b''] \<and>
   isOfflineMode twoQueued \<and> ''b'' \<in> set (ids (reorderItems twoQueued)) \<and>
   ''b'' \<notin> set (ids (pendingSyncItems (removeItem ''b'' sampleEnv twoQueued)))"
proof -
  have h: "''a'' \<in> set (ids (pendingSyncItems twoQueued))"
    "''b'' \<in> set (ids (pendingSyncItems twoQueued))"
    "id' (pendingSyncItems twoQueued ! 0) = ''a''" "firstOnly 0 = Resolved True"
    "length (pendingSyncItems twoQueued) = 2"
    "id' (pendingSyncItems twoQueued ! 1) = ''b''" "firstOnly 1 = Rejected"
    "isOfflineMode twoQueued" "''b'' \<in> set (ids (reorderItems twoQueued))"
    by (simp_all add: twoQueued_def firstOnly_def sample_defs)
  have conf: "\<exists>k < length (pendingSyncItems twoQueued).
      id' (pendingSyncItems twoQueued ! k) = ''a'' \<and> firstOnly k = Resolved True"
    using h by (intro exI [of _ 0]) simp
  have unconf: "\<not> (\<exists>k < length (pendingSyncItems twoQueued).
      id' (pendingSyncItems twoQueued ! k) = ''b'' \<and> firstOnly k = Resolved True)"
    using h(3) by (auto simp: firstOnly_def split: if_splits)
  note a = pending_entry_leaves_on_confirmation_or_removal
    [of "''a''" twoQueued firstOnly sampleEnv "RemoveItem ''a'' sampleEnv"]
  note b = pending_entry_leaves_on_confirmation_or_removal
    [of "''b''" twoQueued firstOnly sampleEnv "RemoveItem ''b'' sampleEnv"]
  from a h(1) conf
  have 1: "''a'' \<notin> set (ids (pendingSyncItems (syncPendingItems firstOnly twoQueued)))"
    by blast
  from b h(2) unconf
  have 2: "''b'' \<in> set (ids (pendingSyncItems (syncPendingItems firstOnly twoQueued)))"
    "filter (\<lambda>p. id' p = ''b'') (pendingSyncItems (syncPendingItems firstOnly twoQueued))
     = filter (\<lambda>p. id' p = ''b'') (pendingSyncItems twoQueued)"
    by blast+
  from b h(8,9)
  have 3: "''b'' \<notin> set (ids (pendingSyncItems (removeItem ''b'' sampleEnv twoQueued)))"
    by blast
  have 4: "ids (pendingSyncItems (syncPendingItems (\<lambda>k. Rejected) (syncPendingItems firstOnly twoQueued)))
     = [''b'']"
    by (simp add: syncPendingItems_def twoQueued_def firstOnly_def sample_defs)
  from h 1 2 3 4 show ?thesis by blast
qed

text \<open>
  The claim as stated fails: offline, with the record \<open>a\<close> in the collection and an entry
  keyed \<open>a\<close> in the queue, \<open>removeItem(a)\<close> takes the entry out of the queue although no
  flush ran and no call went to the remote.
\<close>

theorem pending_entry_removed_unconfirmed_counterexample:
  "''a'' \<in> set (ids (pendingSyncItems twoQueued)) \<and>
   ''a'' \<notin> set (ids (pendingSyncItems (removeItem ''a'' sampleEnv twoQueued))) \<and>
   remoteCalls (removeItem ''a'' sampleEnv twoQueued) = []"
  by (simp add: removeItem_def removeItemLocally_def remoteCalls_def reindex_def splice1_def
      twoQueued_def sample_defs)

subsection \<open>Snapshots handed to listeners\<close>

lemma mutate_frame:
  "a \<noteq> b \<Longrightarrow> arrays (mutate a mu m) b = arrays m b"
  "nextArray (mutate a mu m) = nextArray m"
  "reorderItemsRef (mutate a mu m) = reorderItemsRef m"
  by (cases mu; simp)+

lemma mutate_records: "\<not> isWrite mu \<Longrightarrow> records (mutate a mu m) = records m"
  by (cases mu) simp_all

lemma script_frame:
  "a \<noteq> b \<Longrightarrow> arrays (fold (mutate a) script m) b = arrays m b"
  "nextArray (fold (mutate a) script m) = nextArray m"
  "reorderItemsRef (fold (mutate a) script m) = reorderItemsRef m"
  by (induction script arbitrary: m) (simp_all add: mutate_frame)

lemma script_records:
  "\<forall>mu \<in> set script. \<not> isWrite mu \<Longrightarrow> records (fold (mutate a) script m) = records m"
  by (induction script arbitrary: m) (simp_all add: mutate_records)

lemma callListener_frame:
  assumes "reorderItemsRef m < nextArray m"
  shows "arrays (callListener script m) (reorderItemsRef m) = arrays m (reorderItemsRef m)"
    and "reorderItemsRef (callListener script m) = reorderItemsRef m"
    and "nextArray (callListener script m) = Suc (nextArray m)"
  using assms by (simp_all add: callListener_def spread_def script_frame)

lemma callListener_records:
  "\<forall>mu \<in> set script. \<not> isWrite mu \<Longrightarrow> records (callListener script m) = records m"
  by (simp add: callListener_def spread_def script_records)

lemma notify_frame:
  "reorderItemsRef m < nextArray m \<Longrightarrow>
   arrays (notifyListenersRef ls m) (reorderItemsRef m) = arrays m (reorderItemsRef m) \<and>
   reorderItemsRef (notifyListenersRef ls m) = reorderItemsRef m"
proof (induction ls arbitrary: m)
  case Nil
  then show ?case by (simp add: notifyListenersRef_def)
next
  case (Cons script ls)
  let ?m1 = "callListener script m"
  have 1: "reorderItemsRef ?m1 < nextArray ?m1"
    using Cons.prems by (simp add: callListener_frame)
  from Cons.IH [OF 1] callListener_frame [OF Cons.prems, of script]
  show ?case by (simp add: notifyListenersRef_def)
qed

lemma notify_records:
  "\<forall>script \<in> set ls. \<forall>mu \<in> set script. \<not> isWrite mu \<Longrightarrow>
   records (notifyListenersRef ls m) = records m"
  by (induction ls arbitrary: m) (simp_all add: notifyListenersRef_def callListener_records)

text \<open>
  C8 (amended). Every listener is called with a new array that holds the references of
  the engine's own records. Whatever the listeners do to the arrays they are handed
  (adding, removing, replacing elements), the engine's array holds the same references
  in the same order afterwards; and when no listener writes to a record, the
  collection is unchanged. A write to a record reached through the argument is a write
  to the engine's record.
\<close>

theorem listener_array_is_a_copy:
  "reorderItemsRef m < nextArray m \<longrightarrow>
     reorderItemsRef (notifyListenersRef ls m) = reorderItemsRef m \<and>
     arrays (notifyListenersRef ls m) (reorderItemsRef m) = arrays m (reorderItemsRef m) \<and>
     ((\<forall>script \<in> set ls. \<forall>mu \<in> set script. \<not> isWrite mu) \<longrightarrow>
        collection (notifyListenersRef ls m) = collection m) \<and>
     (i < length (arrays m (reorderItemsRef m)) \<longrightarrow>
        records (callListener [WriteRecord i f] m) (arrays m (reorderItemsRef m) ! i)
          = f (records m (arrays m (reorderItemsRef m) ! i)))"
proof (intro impI conjI)
  assume wf: "reorderItemsRef m < nextArray m"
  show "reorderItemsRef (notifyListenersRef ls m) = reorderItemsRef m"
    using notify_frame [OF wf] by simp
  show arr: "arrays (notifyListenersRef ls m) (reorderItemsRef m) = arrays m (reorderItemsRef m)"
    using notify_frame [OF wf] by simp
  show "collection (notifyListenersRef ls m) = collection m"
    if "\<forall>script \<in> set ls. \<forall>mu \<in> set script. \<not> isWrite mu"
    using notify_frame [OF wf, of ls] notify_records [OF that]
    by (simp add: collection_def)
  show "records (callListener [WriteRecord i f] m) (arrays m (reorderItemsRef m) ! i)
          = f (records m (arrays m (reorderItemsRef m) ! i))"
    if "i < length (arrays m (reorderItemsRef m))"
    using that by (simp add: callListener_def spread_def)
qed

theorem listener_array_is_a_copy_witness:
  "reorderItemsRef sampleMemory < nextArray sampleMemory \<and>
   arrays (notifyListenersRef [[Pop, Push 7], [Truncate]] sampleMemory) (reorderItemsRef sampleMemory)
     = [0, 1] \<and>
   collection (notifyListenersRef [[Pop, Push 7], [Truncate]] sampleMemory) = collection sampleMemory \<and>
   quantity (records (callListener [WriteRecord 0 (\<lambda>r. r\<lparr>quantity := 99\<rparr>)] sampleMemory) 0) = 99"
proof -
  have wf: "reorderItemsRef sampleMemory < nextArray sampleMemory"
    by (simp add: sampleMemory_def)
  have nw: "\<forall>script \<in> set [[Pop, Push 7], [Truncate]]. \<forall>mu \<in> set script. \<not> isWrite mu"
    by simp
  have v: "arrays sampleMemory (reorderItemsRef sampleMemory) = [0, 1]"
    by (simp add: sampleMemory_def)
  from listener_array_is_a_copy
    [of sampleMemory "[[Pop, Push 7], [Truncate]]" 0 "\<lambda>r. r\<lparr>quantity := 99\<rparr>"] wf nw v
  show ?thesis by simp
qed

text \<open>
  The claim as stated fails: a listener that writes \<open>items[0].quantity = 99\<close> changes the
  quantity of the first record of the engine's collection from 2 to 99.
\<close>

theorem listener_write_reaches_engine_counterexample:
  "quantity (collection sampleMemory ! 0) = 2 \<and>
   quantity (collection (notifyListenersRef [writingListener] sampleMemory) ! 0) = 99"
  by (simp add: collection_def notifyListenersRef_def callListener_def spread_def sampleMemory_def
      sampleItem_def writingListener_def overwriteQuantity_def)

end
